theory Spec2Isabelle
  imports Complex_Main "HOL-Library.Multiset"
begin

section \<open>Numbers and tensors\<close>

text \<open>
  The program is \<^verbatim>\<open>fish_vocoder/models/hifigan.py\<close>. Its numbers are torch tensors of
  floats and Python numbers. The model keeps the values a float can hold that are not
  finite (both infinities and nan) and takes the arithmetic on finite values to be exact:
  rounding and overflow are outside the model. Exact sums do not depend on the order of
  their terms and float32 sums do; for the totals of the loss utilities, where the order
  is in question, the model has the float32 addition as well.
\<close>

datatype scalar = Fin real | PInf | NInf | NaN

instantiation scalar :: "{zero, one, plus, uminus, minus, times, abs}"
begin

definition zero_scalar :: scalar where
  "zero_scalar = Fin 0"

definition one_scalar :: scalar where
  "one_scalar = Fin 1"

fun plus_scalar :: "scalar \<Rightarrow> scalar \<Rightarrow> scalar" where
  "plus_scalar NaN y = NaN"
| "plus_scalar x NaN = NaN"
| "plus_scalar (Fin a) (Fin b) = Fin (a + b)"
| "plus_scalar PInf NInf = NaN"
| "plus_scalar NInf PInf = NaN"
| "plus_scalar PInf y = PInf"
| "plus_scalar NInf y = NInf"
| "plus_scalar (Fin a) y = y"

fun uminus_scalar :: "scalar \<Rightarrow> scalar" where
  "uminus_scalar (Fin a) = Fin (- a)"
| "uminus_scalar PInf = NInf"
| "uminus_scalar NInf = PInf"
| "uminus_scalar NaN = NaN"

definition minus_scalar :: "scalar \<Rightarrow> scalar \<Rightarrow> scalar" where
  "minus_scalar x y = x + (- y)"

fun abs_scalar :: "scalar \<Rightarrow> scalar" where
  "abs_scalar (Fin a) = Fin \<bar>a\<bar>"
| "abs_scalar PInf = PInf"
| "abs_scalar NInf = PInf"
| "abs_scalar NaN = NaN"

text \<open>The sign of a value that is not nan: \<open>-1\<close>, \<open>0\<close> or \<open>1\<close>.\<close>

fun sign_of :: "scalar \<Rightarrow> int" where
  "sign_of (Fin a) = (if a < 0 then - 1 else if a = 0 then 0 else 1)"
| "sign_of PInf = 1"
| "sign_of NInf = - 1"
| "sign_of NaN = 0"

fun times_scalar :: "scalar \<Rightarrow> scalar \<Rightarrow> scalar" where
  "times_scalar NaN y = NaN"
| "times_scalar x NaN = NaN"
| "times_scalar (Fin a) (Fin b) = Fin (a * b)"
| "times_scalar x y =
     (if sign_of x * sign_of y = 0 then NaN
      else if sign_of x * sign_of y > 0 then PInf else NInf)"

instance ..

end

lemma scalar_add_assoc: "(x + y) + z = x + (y + z)" for x y z :: scalar
  by (cases x; cases y; cases z; simp)

lemma scalar_add_commute: "x + y = y + x" for x y :: scalar
  by (cases x; cases y; simp)

lemma scalar_add_zero: "0 + x = x" for x :: scalar
  by (cases x; simp add: zero_scalar_def)

instance scalar :: comm_monoid_add
  by standard (rule scalar_add_assoc scalar_add_commute scalar_add_zero)+

text \<open>
  A float divided by a Python \<open>int\<close> that is not negative (a \<open>len\<close> or an element
  count). Float division does not raise: \<open>0 / 0\<close> is nan and \<open>x / 0\<close> is an infinity
  with the sign of \<open>x\<close>.
\<close>

fun div_count :: "scalar \<Rightarrow> nat \<Rightarrow> scalar" where
  "div_count NaN n = NaN"
| "div_count PInf n = PInf"
| "div_count NInf n = NInf"
| "div_count (Fin a) n =
     (if n = 0 then (if a = 0 then NaN else if a > 0 then PInf else NInf)
      else Fin (a / real n))"

text \<open>
  A tensor is its shape and its elements in row-major order; a well-formed tensor has
  as many elements as the product of its shape.
\<close>

record tensor =
  shape :: "nat list"
  elems :: "scalar list"

definition wf_tensor :: "tensor \<Rightarrow> bool" where
  "wf_tensor t = (length (elems t) = prod_list (shape t))"

datatype error = AssertionError | IndexError | RuntimeError | ZeroDivisionError

text \<open>\<open>c - t\<close>, \<open>t - c\<close> and \<open>t ** 2\<close> for a Python number \<open>c\<close> and a tensor \<open>t\<close>.\<close>

definition rsub :: "scalar \<Rightarrow> tensor \<Rightarrow> tensor" where
  "rsub c t = t\<lparr>elems := map (\<lambda>x. c - x) (elems t)\<rparr>"

definition subc :: "tensor \<Rightarrow> scalar \<Rightarrow> tensor" where
  "subc t c = t\<lparr>elems := map (\<lambda>x. x - c) (elems t)\<rparr>"

definition pow2 :: "tensor \<Rightarrow> tensor" where
  "pow2 t = t\<lparr>elems := map (\<lambda>x. x * x) (elems t)\<rparr>"

text \<open>\<open>torch.mean\<close>: the sum over the element count; nan on a tensor with no element.\<close>

definition mean :: "tensor \<Rightarrow> scalar" where
  "mean t = div_count (sum_list (elems t)) (length (elems t))"


subsection \<open>Broadcasting\<close>

text \<open>
  Elementwise operations of torch on two tensors follow the broadcasting rule: the
  shapes are aligned at the last axis, and two sizes go together when they are equal or
  one of them is 1; otherwise the operation raises \<open>RuntimeError\<close>.
\<close>

fun broadcast_rev :: "nat list \<Rightarrow> nat list \<Rightarrow> nat list option" where
  "broadcast_rev [] ys = Some ys"
| "broadcast_rev xs [] = Some xs"
| "broadcast_rev (x # xs) (y # ys) =
     (if x = y \<or> y = 1 then map_option ((#) x) (broadcast_rev xs ys)
      else if x = 1 then map_option ((#) y) (broadcast_rev xs ys)
      else None)"

definition broadcast_shapes :: "nat list \<Rightarrow> nat list \<Rightarrow> nat list option" where
  "broadcast_shapes a b = map_option rev (broadcast_rev (rev a) (rev b))"

fun chunks :: "nat \<Rightarrow> nat \<Rightarrow> 'a list \<Rightarrow> 'a list list" where
  "chunks k 0 xs = []"
| "chunks k (Suc n) xs = take k xs # chunks k n (drop k xs)"

text \<open>
  The elements of a tensor of shape \<open>ds\<close> read at shape \<open>es\<close> (of the same rank): an axis
  of size 1 is repeated.
\<close>

fun expand :: "nat list \<Rightarrow> nat list \<Rightarrow> 'a list \<Rightarrow> 'a list" where
  "expand (d # ds) (e # es) xs =
     (if d = e then concat (map (expand ds es) (chunks (prod_list ds) d xs))
      else concat (replicate e (expand ds es xs)))"
| "expand ds es xs = xs"

definition broadcast_to :: "tensor \<Rightarrow> nat list \<Rightarrow> scalar list" where
  "broadcast_to t sh =
     (if shape t = sh then elems t
      else expand (replicate (length sh - length (shape t)) 1 @ shape t) sh (elems t))"

definition binop :: "(scalar \<Rightarrow> scalar \<Rightarrow> scalar) \<Rightarrow> tensor \<Rightarrow> tensor \<Rightarrow> error + tensor" where
  "binop f a b =
     (case broadcast_shapes (shape a) (shape b) of
        None \<Rightarrow> Inl RuntimeError
      | Some sh \<Rightarrow> Inr \<lparr>shape = sh, elems = map2 f (broadcast_to a sh) (broadcast_to b sh)\<rparr>)"

text \<open>\<open>F.l1_loss(a, b)\<close> with the default reduction: the mean of \<open>|a - b|\<close>.\<close>

definition l1_loss :: "tensor \<Rightarrow> tensor \<Rightarrow> error + scalar" where
  "l1_loss a b =
     (case binop (\<lambda>x y. \<bar>x - y\<bar>) a b of Inl e \<Rightarrow> Inl e | Inr d \<Rightarrow> Inr (mean d))"

subsection \<open>Python numbers\<close>

text \<open>
  The accumulators of the program start as the Python \<open>int\<close> 0 and become tensors with
  the first \<open>+=\<close> of a tensor.
\<close>

datatype pynum = PyInt int | PyFloat scalar | Tensor scalar

fun to_scalar :: "pynum \<Rightarrow> scalar" where
  "to_scalar (PyInt i) = Fin (real_of_int i)"
| "to_scalar (PyFloat x) = x"
| "to_scalar (Tensor x) = x"

text \<open>\<open>v += t\<close> (and \<open>v + t\<close>) for a Python number or tensor \<open>v\<close> and a tensor \<open>t\<close>.\<close>

definition iadd :: "pynum \<Rightarrow> scalar \<Rightarrow> pynum" where
  "iadd v t = Tensor (to_scalar v + t)"

text \<open>
  \<open>v /= n\<close> for a count \<open>n\<close>: Python's own numbers raise on a zero divisor, a tensor
  does not.
\<close>

fun itruediv :: "pynum \<Rightarrow> nat \<Rightarrow> error + pynum" where
  "itruediv (PyInt i) n =
     (if n = 0 then Inl ZeroDivisionError else Inr (PyFloat (Fin (real_of_int i / real n))))"
| "itruediv (PyFloat x) n =
     (if n = 0 then Inl ZeroDivisionError else Inr (PyFloat (div_count x n)))"
| "itruediv (Tensor x) n = Inr (Tensor (div_count x n))"

section \<open>The loss utilities\<close>

text \<open>\<open>HiFiGANModel.discriminator_loss\<close> (lines 234-248).\<close>

definition discriminator_loss ::
  "tensor list \<Rightarrow> tensor list \<Rightarrow> pynum \<times> scalar list \<times> scalar list" where
  "discriminator_loss disc_real_outputs disc_generated_outputs =
     foldl (\<lambda>(loss, r_losses, g_losses) (dr, dg).
        let r_loss = mean (pow2 (rsub 1 dr));
            g_loss = mean (pow2 dg)
        in (iadd loss (r_loss + g_loss), r_losses @ [r_loss], g_losses @ [g_loss]))
      (PyInt 0, [], []) (zip disc_real_outputs disc_generated_outputs)"

text \<open>\<open>HiFiGANModel.generator_loss\<close> (lines 250-260).\<close>

definition generator_loss :: "tensor list \<Rightarrow> pynum \<times> scalar list" where
  "generator_loss disc_outputs =
     foldl (\<lambda>(loss, losses) dg.
        let temp = mean (pow2 (rsub 1 dg))
        in (iadd loss temp, losses @ [temp]))
      (PyInt 0, []) disc_outputs"

text \<open>
  \<open>HiFiGANModel.feature_matching_loss\<close> (lines 262-270): the inner loop over the feature
  maps of one discriminator, the outer loop over the discriminators, and Python's \<open>sum\<close>,
  which starts from the \<open>int\<close> 0.
\<close>

fun feature_matching_inner :: "(tensor \<times> tensor) list \<Rightarrow> scalar list \<Rightarrow> error + scalar list" where
  "feature_matching_inner [] losses = Inr losses"
| "feature_matching_inner ((rl, gl) # ps) losses =
     (case l1_loss rl gl of
        Inl e \<Rightarrow> Inl e
      | Inr l \<Rightarrow> feature_matching_inner ps (losses @ [l]))"

fun feature_matching_outer ::
  "(tensor list \<times> tensor list) list \<Rightarrow> scalar list \<Rightarrow> error + scalar list" where
  "feature_matching_outer [] losses = Inr losses"
| "feature_matching_outer ((dr, dg) # ps) losses =
     (case feature_matching_inner (zip dr dg) losses of
        Inl e \<Rightarrow> Inl e
      | Inr losses' \<Rightarrow> feature_matching_outer ps losses')"

definition py_sum :: "scalar list \<Rightarrow> pynum" where
  "py_sum losses = foldl iadd (PyInt 0) losses"

definition feature_matching_loss :: "tensor list list \<Rightarrow> tensor list list \<Rightarrow> error + pynum" where
  "feature_matching_loss disc_real_outputs disc_generated_outputs =
     (case feature_matching_outer (zip disc_real_outputs disc_generated_outputs) [] of
        Inl e \<Rightarrow> Inl e
      | Inr losses \<Rightarrow> Inr (py_sum losses))"

subsection \<open>The totals in float32\<close>

text \<open>
  The tensors of the program are floats, float32 by the default of torch, and
  \<open>loss += t\<close> rounds the sum to float32 every time it runs, so a total is the sum of
  its terms from left to right, rounded after every addition. Rounding is to the nearest float32, and to the one with an even
  significand when two are equally near. \<open>round_even\<close> is that rule on the integers.
\<close>

definition round_even :: "real \<Rightarrow> int" where
  "round_even q =
     (let f = \<lfloor>q\<rfloor>
      in if q - of_int f < 1 / 2 then f
         else if 1 / 2 < q - of_int f then f + 1
         else if even f then f else f + 1)"

text \<open>
  The distance between the float32 values next to \<open>x \<noteq> 0\<close>. A float32 has 24
  significant bits: for \<open>2 ^ e \<le> |x| < 2 ^ (e + 1)\<close> the distance is \<open>2 ^ (e - 23)\<close>, and
  below the normal range, which starts at \<open>2 ^ - 126\<close>, it is \<open>2 ^ - 149\<close>.
\<close>

definition ulp_f32 :: "real \<Rightarrow> real" where
  "ulp_f32 x = 2 powr of_int (max \<lfloor>log 2 \<bar>x\<bar>\<rfloor> (- 126) - 23)"

text \<open>
  The float32 nearest to a real. A result of magnitude \<open>2 ^ 128\<close>, one step above the
  largest float32, is an infinity.
\<close>

definition round_f32 :: "real \<Rightarrow> scalar" where
  "round_f32 x =
     (if x = 0 then Fin 0
      else let y = of_int (round_even (x / ulp_f32 x)) * ulp_f32 x
           in if 2 ^ 128 \<le> \<bar>y\<bar> then (if 0 < x then PInf else NInf) else Fin y)"

text \<open>
  The sum of two float32 values: the exact sum, rounded. Adding zero changes no float,
  and the sums with an infinity or nan are those of the exact model.
\<close>

definition fadd :: "scalar \<Rightarrow> scalar \<Rightarrow> scalar" where
  "fadd x y =
     (case (x, y) of
        (Fin a, Fin b) \<Rightarrow> if a = 0 then Fin b else if b = 0 then Fin a else round_f32 (a + b)
      | _ \<Rightarrow> x + y)"

definition iadd_f32 :: "pynum \<Rightarrow> scalar \<Rightarrow> pynum" where
  "iadd_f32 v t = Tensor (fadd (to_scalar v) t)"

text \<open>
  \<open>discriminator_loss\<close> and \<open>generator_loss\<close> (lines 234-260) with the float32 addition
  for \<open>r_loss + g_loss\<close> and for both \<open>+=\<close>. The losses of the single outputs are the
  means as above.
\<close>

definition discriminator_loss_f32 ::
  "tensor list \<Rightarrow> tensor list \<Rightarrow> pynum \<times> scalar list \<times> scalar list" where
  "discriminator_loss_f32 disc_real_outputs disc_generated_outputs =
     foldl (\<lambda>(loss, r_losses, g_losses) (dr, dg).
        let r_loss = mean (pow2 (rsub 1 dr));
            g_loss = mean (pow2 dg)
        in (iadd_f32 loss (fadd r_loss g_loss), r_losses @ [r_loss], g_losses @ [g_loss]))
      (PyInt 0, [], []) (zip disc_real_outputs disc_generated_outputs)"

definition generator_loss_f32 :: "tensor list \<Rightarrow> pynum \<times> scalar list" where
  "generator_loss_f32 disc_outputs =
     foldl (\<lambda>(loss, losses) dg.
        let temp = mean (pow2 (rsub 1 dg))
        in (iadd_f32 loss temp, losses @ [temp]))
      (PyInt 0, []) disc_outputs"

section \<open>The training and validation steps\<close>

subsection \<open>Indexing and random numbers\<close>

text \<open>\<open>t.shape[i]\<close>: Python's tuple indexing, where a negative index counts from the end.\<close>

definition shape_at :: "tensor \<Rightarrow> int \<Rightarrow> error + nat" where
  "shape_at t i =
     (let k = (if i < 0 then i + int (length (shape t)) else i)
      in if k < 0 \<or> int (length (shape t)) \<le> k then Inl IndexError
         else Inr (shape t ! nat k))"

text \<open>
  \<open>t.squeeze(1)\<close>: axis 1 is removed when its size is 1; a tensor of rank below 2 has no
  axis 1.
\<close>

definition squeeze1 :: "tensor \<Rightarrow> error + tensor" where
  "squeeze1 t =
     (if length (shape t) < 2 then Inl IndexError
      else if shape t ! 1 = 1 then Inr (t\<lparr>shape := hd (shape t) # drop 2 (shape t)\<rparr>)
      else Inr t)"

text \<open>\<open>t[:, None, :]\<close>: a new axis of size 1 at position 1; two slices need rank 2.\<close>

definition insert_axis1 :: "tensor \<Rightarrow> error + tensor" where
  "insert_axis1 t =
     (if length (shape t) < 2 then Inl IndexError
      else Inr (t\<lparr>shape := hd (shape t) # 1 # tl (shape t)\<rparr>))"

text \<open>
  A bound of a Python slice on an axis of size \<open>n\<close>: a negative bound counts from the
  end, and the result is clamped to the axis.
\<close>

definition slice_bound :: "int \<Rightarrow> nat \<Rightarrow> nat" where
  "slice_bound i n = (if i < 0 then nat (max (i + int n) 0) else min (nat i) n)"

text \<open>\<open>t[..., a:b]\<close>: every row along the last axis is cut to the window.\<close>

definition slice_last :: "tensor \<Rightarrow> int \<Rightarrow> int \<Rightarrow> error + tensor" where
  "slice_last t a b =
     (case rev (shape t) of
        [] \<Rightarrow> Inl IndexError
      | n # ds \<Rightarrow>
          let lo = slice_bound a n;
              hi = slice_bound b n
          in Inr \<lparr>shape = rev ds @ [hi - lo],
                  elems = concat (map (\<lambda>row. take (hi - lo) (drop lo row))
                                   (chunks n (prod_list ds) (elems t)))\<rparr>)"

text \<open>
  \<open>torch.randint(low, high, (1,))\<close>: an integer of \<open>[low, high)\<close>, and \<open>RuntimeError\<close> when
  that range is empty. The state of the random generator is the argument \<open>seed\<close>, and
  the draw is uniform over the states: every integer of the range is the draw of one
  state out of every \<open>high - low\<close> consecutive ones.
\<close>

definition randint :: "int \<Rightarrow> int \<Rightarrow> nat \<Rightarrow> error + int" where
  "randint low high seed =
     (if high \<le> low then Inl RuntimeError else Inr (low + int seed mod (high - low)))"

subsection \<open>Effects\<close>

text \<open>
  What a step does to its collaborators, in the order it does it. The flags of a \<open>Log\<close>
  are \<open>on_step\<close>, \<open>on_epoch\<close> and \<open>prog_bar\<close>; \<open>logger\<close> and \<open>sync_dist\<close> are \<open>True\<close> in
  every call of the program. \<open>NoGradEnter\<close> and \<open>NoGradExit\<close> are the entry into and the
  exit from a \<open>with torch.no_grad():\<close> block: between them autograd records nothing.
\<close>

datatype role = Gen | Disc

datatype event =
    ZeroGrad role
  | ManualBackward pynum
  | OptimizerStep role
  | SchedulerStep role
  | Log string pynum bool bool bool
  | ReportValMetrics tensor tensor "int list"
  | NoGradEnter
  | NoGradExit

text \<open>
  A step returns a value or raises, and in both cases it has emitted events: an
  exception leaves the events before it in place.
\<close>

type_synonym 'a step = "(error + 'a) \<times> event list"

definition pure_step :: "'a \<Rightarrow> 'a step" where
  "pure_step x = (Inr x, [])"

definition lift :: "error + 'a \<Rightarrow> 'a step" where
  "lift r = (r, [])"

definition emit :: "event \<Rightarrow> unit step" where
  "emit e = (Inr (), [e])"

definition py_assert :: "bool \<Rightarrow> unit step" where
  "py_assert c = (if c then Inr () else Inl AssertionError, [])"

definition bind_step :: "'a step \<Rightarrow> ('a \<Rightarrow> 'b step) \<Rightarrow> 'b step" where
  "bind_step m f =
     (case m of
        (Inl e, evs) \<Rightarrow> (Inl e, evs)
      | (Inr x, evs) \<Rightarrow> (case f x of (r, evs') \<Rightarrow> (r, evs @ evs')))"

text \<open>
  \<open>with torch.no_grad(): body\<close>. The scope is entered, the body runs, and the scope is
  left, also when the body raises: the exception passes through the \<open>with\<close> statement
  after its exit.
\<close>

definition no_grad :: "'a step \<Rightarrow> 'a step" where
  "no_grad body = (case body of (r, evs) \<Rightarrow> (r, [NoGradEnter] @ evs @ [NoGradExit]))"

subsection \<open>The model and its collaborators\<close>

text \<open>
  The fields of \<open>HiFiGANModel\<close> that the steps use. The networks, the transforms and the
  STFT loss are collaborators: functions on tensors. \<open>discriminators\<close> is a
  \<open>ModuleDict\<close>, iterated in insertion order. \<open>sequence_mask\<close> is imported from
  \<open>fish_vocoder.utils.mask\<close> and taken as a parameter.
\<close>

record hifigan_model =
  mel_transforms_input :: "tensor \<Rightarrow> tensor"
  mel_transforms_loss :: "tensor \<Rightarrow> tensor"
  generator :: "tensor \<Rightarrow> tensor"
  discriminators :: "(string \<times> (tensor \<Rightarrow> tensor \<times> tensor list)) list"
  multi_resolution_stft_loss :: "tensor \<Rightarrow> tensor \<Rightarrow> scalar \<times> scalar"
  crop_length :: "int option"
  sequence_mask :: "int list \<Rightarrow> tensor"

record batch =
  audio :: tensor
  lengths :: "int list"

subsection \<open>\<open>training_step\<close>\<close>

text \<open>
  Lines 80-92: the mask, the generator's output, the first assertion and the masking of
  both signals. The result is \<open>(audio, fake_audio, audio_mask)\<close> after line 92.
\<close>

definition training_forward :: "hifigan_model \<Rightarrow> batch \<Rightarrow> (tensor \<times> tensor \<times> tensor) step" where
  "training_forward M b =
     bind_step (lift (insert_axis1 (sequence_mask M (lengths b)))) (\<lambda>audio_mask.
     bind_step (emit (ZeroGrad Gen)) (\<lambda>_.
     bind_step (lift (squeeze1 (audio b))) (\<lambda>squeezed.
     bind_step (pure_step (generator M (mel_transforms_input M squeezed))) (\<lambda>fake_audio.
     bind_step (py_assert (shape fake_audio = shape (audio b))) (\<lambda>_.
     bind_step (lift (binop (*) (audio b) audio_mask)) (\<lambda>audio_m.
     bind_step (lift (binop (*) fake_audio audio_mask)) (\<lambda>fake_m.
     pure_step (audio_m, fake_m, audio_mask))))))))"

text \<open>
  Lines 113-125, the body of the \<open>with torch.no_grad():\<close> block of line 112: the mel
  features of both signals, their L1 loss \<open>loss_mel\<close>, and its log. The value of the
  block is \<open>loss_mel\<close>.
\<close>

definition mel_loss :: "hifigan_model \<Rightarrow> tensor \<Rightarrow> tensor \<Rightarrow> scalar step" where
  "mel_loss M audio_m fake_m =
     bind_step (lift (squeeze1 audio_m)) (\<lambda>audio_s.
     bind_step (pure_step (mel_transforms_loss M audio_s)) (\<lambda>audio_mel.
     bind_step (lift (squeeze1 fake_m)) (\<lambda>fake_s.
     bind_step (pure_step (mel_transforms_loss M fake_s)) (\<lambda>fake_audio_mel.
     bind_step (lift (l1_loss audio_mel fake_audio_mel)) (\<lambda>loss_mel.
     bind_step (emit (Log ''train/generator/mel'' (Tensor loss_mel) True False True)) (\<lambda>_.
     pure_step loss_mel))))))"

text \<open>
  Lines 94-125: the multi-resolution STFT loss and its log, then the mel loss under
  \<open>torch.no_grad()\<close>. The result is \<open>loss_stft\<close>; \<open>loss_mel\<close> is not returned, as no later
  line reads it.
\<close>

definition spectral_losses :: "hifigan_model \<Rightarrow> tensor \<Rightarrow> tensor \<Rightarrow> scalar step" where
  "spectral_losses M audio_m fake_m =
     bind_step (lift (squeeze1 fake_m)) (\<lambda>fake_s.
     bind_step (lift (squeeze1 audio_m)) (\<lambda>audio_s.
     bind_step (pure_step (multi_resolution_stft_loss M fake_s audio_s)) (\<lambda>(sc_loss, mag_loss).
     bind_step (pure_step (sc_loss + mag_loss)) (\<lambda>loss_stft.
     bind_step (emit (Log ''train/generator/stft'' (Tensor loss_stft) True False True)) (\<lambda>_.
     bind_step (no_grad (mel_loss M audio_m fake_m)) (\<lambda>loss_mel.
     pure_step loss_stft))))))"

text \<open>Lines 128-135: the crop to a window of \<open>crop_length\<close> samples.\<close>

definition crop ::
  "hifigan_model \<Rightarrow> nat \<Rightarrow> tensor \<Rightarrow> tensor \<Rightarrow> tensor \<Rightarrow> (tensor \<times> tensor \<times> tensor) step" where
  "crop M seed audio_m fake_m audio_mask =
     (case crop_length M of
        None \<Rightarrow> pure_step (audio_m, fake_m, audio_mask)
      | Some c \<Rightarrow>
          bind_step (lift (shape_at audio_m 2)) (\<lambda>time.
          if int time > c then
            bind_step (lift (shape_at audio_m (- 1))) (\<lambda>width.
            bind_step (lift (randint 0 (int width - c) seed)) (\<lambda>slice_idx.
            bind_step (lift (slice_last audio_m slice_idx (slice_idx + c))) (\<lambda>audio_c.
            bind_step (lift (slice_last fake_m slice_idx (slice_idx + c))) (\<lambda>fake_c.
            bind_step (lift (slice_last audio_mask slice_idx (slice_idx + c))) (\<lambda>mask_c.
            bind_step (py_assert (shape audio_c = shape fake_c \<and> shape fake_c = shape mask_c)) (\<lambda>_.
            pure_step (audio_c, fake_c, mask_c)))))))
          else pure_step (audio_m, fake_m, audio_mask)))"

text \<open>Lines 138-154: the loop over the discriminators in the generator's phase.\<close>

fun adv_loop ::
  "(string \<times> (tensor \<Rightarrow> tensor \<times> tensor list)) list \<Rightarrow> tensor \<Rightarrow> pynum \<Rightarrow> pynum step" where
  "adv_loop [] fake_audio loss_adv_all = pure_step loss_adv_all"
| "adv_loop ((key, disc) # rest) fake_audio loss_adv_all =
     bind_step (pure_step (fst (disc fake_audio))) (\<lambda>score_fake.
     bind_step (pure_step (mean (pow2 (rsub 1 score_fake)))) (\<lambda>loss_fake.
     bind_step (emit (Log (''train/generator/adv_'' @ key) (Tensor loss_fake) True False False)) (\<lambda>_.
     adv_loop rest fake_audio (iadd loss_adv_all loss_fake))))"

text \<open>Lines 137-160: the generator's loss, its backward pass and its optimizer step.\<close>

definition generator_phase :: "hifigan_model \<Rightarrow> scalar \<Rightarrow> tensor \<Rightarrow> unit step" where
  "generator_phase M loss_stft fake_audio =
     bind_step (adv_loop (discriminators M) fake_audio (PyInt 0)) (\<lambda>loss_adv_all.
     bind_step (lift (itruediv loss_adv_all (length (discriminators M)))) (\<lambda>loss_adv_all.
     bind_step (pure_step (Tensor (loss_stft * Fin (5 / 2) + to_scalar loss_adv_all))) (\<lambda>loss_gen_all.
     bind_step (emit (ManualBackward loss_gen_all)) (\<lambda>_.
     emit (OptimizerStep Gen)))))"

text \<open>
  Lines 165-182: the loop over the discriminators in their own phase. \<open>detach\<close> cuts the
  gradient and leaves the values of \<open>fake_audio\<close> as they are.
\<close>

fun disc_loop ::
  "(string \<times> (tensor \<Rightarrow> tensor \<times> tensor list)) list \<Rightarrow> tensor \<Rightarrow> tensor \<Rightarrow> pynum \<Rightarrow> pynum step" where
  "disc_loop [] audio_c fake_audio loss_disc_all = pure_step loss_disc_all"
| "disc_loop ((key, disc) # rest) audio_c fake_audio loss_disc_all =
     bind_step (pure_step (fst (disc audio_c))) (\<lambda>score.
     bind_step (pure_step (fst (disc fake_audio))) (\<lambda>score_fake.
     bind_step (pure_step (mean (pow2 (subc score 1)) + mean (pow2 score_fake))) (\<lambda>loss_disc.
     bind_step (emit (Log (''train/discriminator/'' @ key) (Tensor loss_disc) True False False)) (\<lambda>_.
     disc_loop rest audio_c fake_audio (iadd loss_disc_all loss_disc)))))"

text \<open>Lines 162-197: the discriminators' loss, its backward pass and their optimizer step.\<close>

definition discriminator_phase :: "hifigan_model \<Rightarrow> tensor \<Rightarrow> tensor \<Rightarrow> unit step" where
  "discriminator_phase M audio_c fake_audio =
     bind_step (emit (ZeroGrad Disc)) (\<lambda>_.
     bind_step (disc_loop (discriminators M) audio_c fake_audio (PyInt 0)) (\<lambda>loss_disc_all.
     bind_step (lift (itruediv loss_disc_all (length (discriminators M)))) (\<lambda>loss_disc_all.
     bind_step (emit (ManualBackward loss_disc_all)) (\<lambda>_.
     bind_step (emit (OptimizerStep Disc)) (\<lambda>_.
     emit (Log ''train/discriminator/all'' loss_disc_all True False True))))))"

text \<open>Lines 77-202. \<open>seed\<close> is the state of the random generator that line 129 reads.\<close>

definition training_step :: "hifigan_model \<Rightarrow> batch \<Rightarrow> nat \<Rightarrow> unit step" where
  "training_step M b seed =
     bind_step (training_forward M b) (\<lambda>(audio_m, fake_m, audio_mask).
     bind_step (spectral_losses M audio_m fake_m) (\<lambda>loss_stft.
     bind_step (crop M seed audio_m fake_m audio_mask) (\<lambda>(audio_c, fake_c, mask_c).
     bind_step (generator_phase M loss_stft fake_c) (\<lambda>_.
     bind_step (discriminator_phase M audio_c fake_c) (\<lambda>_.
     bind_step (emit (SchedulerStep Gen)) (\<lambda>_.
     emit (SchedulerStep Disc)))))))"

subsection \<open>\<open>validation_step\<close>\<close>

text \<open>
  Lines 204-232. Modelled from the spec: \<open>report_val_metrics\<close> is a method of the base
  class \<open>VocoderModel\<close>, whose source is not part of the program text; the spec makes it a
  reporting collaborator that receives the synthesized audio, the reference audio and
  the lengths. Its call is the event \<open>ReportValMetrics\<close>.
\<close>

definition validation_step :: "hifigan_model \<Rightarrow> batch \<Rightarrow> unit step" where
  "validation_step M b =
     bind_step (lift (insert_axis1 (sequence_mask M (lengths b)))) (\<lambda>y_mask.
     bind_step (lift (squeeze1 (audio b))) (\<lambda>squeezed.
     bind_step (pure_step (generator M (mel_transforms_input M squeezed))) (\<lambda>y_g_hat.
     bind_step (py_assert (shape y_g_hat = shape (audio b))) (\<lambda>_.
     bind_step (lift (binop (*) (audio b) y_mask)) (\<lambda>y.
     bind_step (lift (binop (*) y_g_hat y_mask)) (\<lambda>y_g_hat.
     bind_step (lift (squeeze1 y)) (\<lambda>y_s.
     bind_step (pure_step (mel_transforms_loss M y_s)) (\<lambda>y_mel.
     bind_step (lift (squeeze1 y_g_hat)) (\<lambda>y_g_hat_s.
     bind_step (pure_step (mel_transforms_loss M y_g_hat_s)) (\<lambda>y_g_hat_mel.
     bind_step (lift (l1_loss y_mel y_g_hat_mel)) (\<lambda>loss_mel.
     bind_step (emit (Log ''val/metrics/mel'' (Tensor loss_mel) False True True)) (\<lambda>_.
     emit (ReportValMetrics y_g_hat y (lengths b))))))))))))))"

subsection \<open>Reading a trace\<close>

text \<open>The optimizer and scheduler steps of a trace, and the losses given to \<open>manual_backward\<close>.\<close>

fun is_update :: "event \<Rightarrow> bool" where
  "is_update (OptimizerStep r) = True"
| "is_update (SchedulerStep r) = True"
| "is_update e = False"

definition updates :: "event list \<Rightarrow> event list" where
  "updates evs = filter is_update evs"

fun backward_losses :: "event list \<Rightarrow> pynum list" where
  "backward_losses [] = []"
| "backward_losses (ManualBackward l # evs) = l # backward_losses evs"
| "backward_losses (e # evs) = backward_losses evs"

text \<open>The events that touch an optimizer or a scheduler at all.\<close>

fun touches_optimizer :: "event \<Rightarrow> bool" where
  "touches_optimizer (Log k v s e p) = False"
| "touches_optimizer (ReportValMetrics g y l) = False"
| "touches_optimizer NoGradEnter = False"
| "touches_optimizer NoGradExit = False"
| "touches_optimizer e = True"

subsection \<open>Names for the quantities of a step\<close>

text \<open>
  The per-discriminator losses and log calls of the two loops of \<open>training_step\<close>, and the
  two losses given to \<open>manual_backward\<close>, written as closed expressions.
\<close>

definition adv_losses :: "(string \<times> (tensor \<Rightarrow> tensor \<times> tensor list)) list \<Rightarrow> tensor \<Rightarrow> scalar list" where
  "adv_losses ds fake_audio = map (\<lambda>(key, disc). mean (pow2 (rsub 1 (fst (disc fake_audio))))) ds"

definition adv_logs :: "(string \<times> (tensor \<Rightarrow> tensor \<times> tensor list)) list \<Rightarrow> tensor \<Rightarrow> event list" where
  "adv_logs ds fake_audio =
     map (\<lambda>(key, disc). Log (''train/generator/adv_'' @ key)
            (Tensor (mean (pow2 (rsub 1 (fst (disc fake_audio)))))) True False False) ds"

definition disc_losses :: "(string \<times> (tensor \<Rightarrow> tensor \<times> tensor list)) list \<Rightarrow> tensor \<Rightarrow> tensor \<Rightarrow> scalar list" where
  "disc_losses ds audio_c fake_audio =
     map (\<lambda>(key, disc). mean (pow2 (subc (fst (disc audio_c)) 1)) + mean (pow2 (fst (disc fake_audio)))) ds"

definition disc_logs :: "(string \<times> (tensor \<Rightarrow> tensor \<times> tensor list)) list \<Rightarrow> tensor \<Rightarrow> tensor \<Rightarrow> event list" where
  "disc_logs ds audio_c fake_audio =
     map (\<lambda>(key, disc). Log (''train/discriminator/'' @ key)
            (Tensor (mean (pow2 (subc (fst (disc audio_c)) 1)) + mean (pow2 (fst (disc fake_audio)))))
            True False False) ds"

definition loss_gen_all :: "hifigan_model \<Rightarrow> scalar \<Rightarrow> tensor \<Rightarrow> pynum" where
  "loss_gen_all M loss_stft fake_audio =
     Tensor (loss_stft * Fin (5 / 2)
       + div_count (sum_list (adv_losses (discriminators M) fake_audio)) (length (discriminators M)))"

definition loss_disc_all :: "hifigan_model \<Rightarrow> tensor \<Rightarrow> tensor \<Rightarrow> pynum" where
  "loss_disc_all M audio_c fake_audio =
     Tensor (div_count (sum_list (disc_losses (discriminators M) audio_c fake_audio))
       (length (discriminators M)))"

text \<open>
  The events of a step from line 137 to its end, once the ensemble is known not to be
  empty: both phases and both scheduler steps.
\<close>

definition completed_trace :: "hifigan_model \<Rightarrow> scalar \<Rightarrow> tensor \<Rightarrow> tensor \<Rightarrow> event list" where
  "completed_trace M loss_stft audio_c fake_c =
     adv_logs (discriminators M) fake_c
     @ [ManualBackward (loss_gen_all M loss_stft fake_c), OptimizerStep Gen, ZeroGrad Disc]
     @ disc_logs (discriminators M) audio_c fake_c
     @ [ManualBackward (loss_disc_all M audio_c fake_c), OptimizerStep Disc,
        Log ''train/discriminator/all'' (loss_disc_all M audio_c fake_c) True False True,
        SchedulerStep Gen, SchedulerStep Disc]"

text \<open>
  The calls of \<open>self.log\<close> and the two ends of a no-gradient scope, and among the logs
  the one of \<open>loss_mel\<close>.
\<close>

definition is_passive :: "event \<Rightarrow> bool" where
  "is_passive e = (case e of Log k v s ep p \<Rightarrow> True | NoGradEnter \<Rightarrow> True | NoGradExit \<Rightarrow> True
                 | _ \<Rightarrow> False)"


text \<open>A pair of discriminator outputs as \<open>discriminator_loss\<close> scores it, in float32.\<close>

definition pair_loss_f32 :: "tensor \<times> tensor \<Rightarrow> scalar" where
  "pair_loss_f32 p = fadd (mean (pow2 (rsub 1 (fst p)))) (mean (pow2 (snd p)))"

text \<open>A tensor with at least one element, all of them finite.\<close>

fun is_finite :: "scalar \<Rightarrow> bool" where
  "is_finite (Fin a) = True"
| "is_finite x = False"

definition finite_nonempty :: "tensor \<Rightarrow> bool" where
  "finite_nonempty t = (elems t \<noteq> [] \<and> list_all is_finite (elems t))"

subsection \<open>A small model and batch\<close>

text \<open>
  Two signals of four samples with lengths 4 and 3, a generator that adds 1 to every
  sample, two discriminators, and a crop to two samples. The tensors named after it are
  the masked and the cropped signals of a step on this batch.
\<close>

definition example_model :: hifigan_model where
  "example_model =
     \<lparr>mel_transforms_input = (\<lambda>t. t),
      mel_transforms_loss = (\<lambda>t. t),
      generator = (\<lambda>mel. \<lparr>shape = hd (shape mel) # 1 # tl (shape mel),
                            elems = map (\<lambda>x. x + Fin 1) (elems mel)\<rparr>),
      discriminators = [(''mpd'', \<lambda>t. (t, [t])), (''mrd'', \<lambda>t. (pow2 t, []))],
      multi_resolution_stft_loss = (\<lambda>f a. (mean f, mean a)),
      crop_length = Some 2,
      sequence_mask = (\<lambda>ls. \<lparr>shape = [length ls, 4],
         elems = concat (map (\<lambda>l. map (\<lambda>i. if i < l then Fin 1 else Fin 0) [0, 1, 2, 3]) ls)\<rparr>)\<rparr>"

definition example_batch :: batch where
  "example_batch =
     \<lparr>audio = \<lparr>shape = [2, 1, 4], elems = [Fin 1, Fin 2, Fin 3, Fin 4, Fin 0, Fin 1, Fin 0, Fin 5]\<rparr>,
      lengths = [4, 3]\<rparr>"

definition example_audio_m :: tensor where
  "example_audio_m = \<lparr>shape = [2, 1, 4], elems = [Fin 1, Fin 2, Fin 3, Fin 4, Fin 0, Fin 1, Fin 0, Fin 0]\<rparr>"

definition example_fake_m :: tensor where
  "example_fake_m = \<lparr>shape = [2, 1, 4], elems = [Fin 2, Fin 3, Fin 4, Fin 5, Fin 1, Fin 2, Fin 1, Fin 0]\<rparr>"

definition example_mask :: tensor where
  "example_mask = \<lparr>shape = [2, 1, 4], elems = [Fin 1, Fin 1, Fin 1, Fin 1, Fin 1, Fin 1, Fin 1, Fin 0]\<rparr>"

definition example_audio_c :: tensor where
  "example_audio_c = \<lparr>shape = [2, 1, 2], elems = [Fin 2, Fin 3, Fin 1, Fin 0]\<rparr>"

definition example_fake_c :: tensor where
  "example_fake_c = \<lparr>shape = [2, 1, 2], elems = [Fin 3, Fin 4, Fin 2, Fin 1]\<rparr>"

definition example_mask_c :: tensor where
  "example_mask_c = \<lparr>shape = [2, 1, 2], elems = [Fin 1, Fin 1, Fin 1, Fin 1]\<rparr>"

text \<open>
  A batch of one signal with two channels: its mask has one channel, so the shapes of
  audio and mask differ.
\<close>

definition stereo_batch :: batch where
  "stereo_batch =
     \<lparr>audio = \<lparr>shape = [1, 2, 4], elems = [Fin 1, Fin 2, Fin 3, Fin 4, Fin 0, Fin 1, Fin 0, Fin 5]\<rparr>,
      lengths = [4]\<rparr>"

definition stereo_audio :: tensor where
  "stereo_audio = \<lparr>shape = [1, 2, 4], elems = [Fin 1, Fin 2, Fin 3, Fin 4, Fin 0, Fin 1, Fin 0, Fin 5]\<rparr>"

definition stereo_mask :: tensor where
  "stereo_mask = \<lparr>shape = [1, 1, 4], elems = [Fin 1, Fin 1, Fin 1, Fin 1]\<rparr>"

section \<open>Properties of the loss utilities\<close>

lemma foldl_iadd:
  "foldl iadd v ls = (if ls = [] then v else Tensor (to_scalar v + sum_list ls))"
proof (induction ls arbitrary: v)
  case Nil
  show ?case by simp
next
  case (Cons l ls)
  have "foldl iadd v (l # ls) = foldl iadd (iadd v l) ls" by simp
  also have "\<dots> = (if ls = [] then iadd v l else Tensor (to_scalar (iadd v l) + sum_list ls))"
    by (rule Cons.IH)
  also have "\<dots> = Tensor (to_scalar v + sum_list (l # ls))"
    by (simp add: iadd_def add.assoc)
  finally show ?case by simp
qed

lemma mset_map_nth:
  assumes "mset js = mset [0..<length xs]"
  shows "mset (map ((!) xs) js) = mset xs"
proof -
  have "mset (map ((!) xs) js) = image_mset ((!) xs) (mset js)" by simp
  also have "\<dots> = image_mset ((!) xs) (mset [0..<length xs])" using assms by simp
  also have "\<dots> = mset (map ((!) xs) [0..<length xs])" by simp
  also have "\<dots> = mset xs" by (simp add: map_nth)
  finally show ?thesis .
qed

lemma zip_map_nth:
  assumes "length rs = length gs" and "set js \<subseteq> {..<length rs}"
  shows "zip (map ((!) rs) js) (map ((!) gs) js) = map ((!) (zip rs gs)) js"
  using assms by (induction js) auto

lemma floor_log2:
  assumes "2 ^ n \<le> x" and "x < 2 ^ Suc n"
  shows "\<lfloor>log 2 x\<rfloor> = int n"
proof -
  have "(0::real) < 2 ^ n" by simp
  then have pos: "0 < x" using assms(1) by (rule less_le_trans)
  have "real n \<le> log 2 x"
    using assms(1) pos by (simp add: le_log_iff powr_realpow)
  moreover have "log 2 x < real n + 1"
    using assms(2) pos by (simp add: log_less_iff powr_realpow powr_add)
  ultimately show ?thesis by linarith
qed

lemma ulp_2: "ulp_f32 2 = 1 / 2 ^ 22"
proof -
  have "\<lfloor>log 2 (2::real)\<rfloor> = 1" by simp
  then show ?thesis
    by (simp add: ulp_f32_def powr_minus powr_numeral inverse_eq_divide flip: powr_realpow)
qed

lemma ulp_big:
  assumes "2 ^ 24 \<le> x" and "x < 2 ^ 25"
  shows "ulp_f32 x = 2"
proof -
  have "\<lfloor>log 2 x\<rfloor> = 24"
    using floor_log2 [of 24 x] assms by simp
  moreover have "\<bar>x\<bar> = x" using assms by simp
  ultimately show ?thesis by (simp add: ulp_f32_def)
qed

lemma round_2: "round_f32 2 = Fin 2"
  by (simp add: round_f32_def ulp_2 round_even_def)

lemma round_16777217: "round_f32 16777217 = Fin 16777216"
  using ulp_big [of 16777217] by (simp add: round_f32_def round_even_def Let_def)

lemma round_16777218: "round_f32 16777218 = Fin 16777218"
  using ulp_big [of 16777218] by (simp add: round_f32_def round_even_def Let_def)

lemma fadd_commute: "fadd x y = fadd y x"
  by (cases x; cases y) (simp_all add: fadd_def add.commute)

lemma fadd_zero: "fadd (Fin 0) x = x"
  by (cases x) (simp_all add: fadd_def)

lemma discriminator_loop_total_f32:
  "fst (foldl (\<lambda>(loss, r_losses, g_losses) (dr, dg).
        let r_loss = mean (pow2 (rsub 1 dr));
            g_loss = mean (pow2 dg)
        in (iadd_f32 loss (fadd r_loss g_loss), r_losses @ [r_loss], g_losses @ [g_loss]))
      (v, rl, gl) ps) = foldl iadd_f32 v (map pair_loss_f32 ps)"
  by (induction ps arbitrary: v rl gl) (auto simp: pair_loss_f32_def Let_def)

lemma discriminator_loss_total_f32:
  "fst (discriminator_loss_f32 rs gs) = foldl iadd_f32 (PyInt 0) (map pair_loss_f32 (zip rs gs))"
  unfolding discriminator_loss_f32_def by (rule discriminator_loop_total_f32)

lemma generator_loop_total_f32:
  "fst (foldl (\<lambda>(loss, losses) dg.
        let temp = mean (pow2 (rsub 1 dg))
        in (iadd_f32 loss temp, losses @ [temp]))
      (v, ls) ds) = foldl iadd_f32 v (map (\<lambda>dg. mean (pow2 (rsub 1 dg))) ds)"
  by (induction ds arbitrary: v ls) (auto simp: Let_def)

lemma generator_loss_total_f32:
  "fst (generator_loss_f32 ds) = foldl iadd_f32 (PyInt 0) (map (\<lambda>dg. mean (pow2 (rsub 1 dg))) ds)"
  unfolding generator_loss_f32_def by (rule generator_loop_total_f32)

lemma mset_two:
  assumes "mset [a, b] = mset ls"
  shows "ls = [a, b] \<or> ls = [b, a]"
proof -
  have "length ls = 2" using assms by (metis length_Cons list.size(3) size_mset numeral_2_eq_2)
  then obtain c d where ls: "ls = [c, d]"
    by (metis (no_types) length_0_conv length_Suc_conv numeral_2_eq_2)
  show ?thesis using assms unfolding ls by (auto simp: add_eq_conv_ex)
qed

lemma foldl_iadd_f32_two:
  assumes "length ls \<le> 2" and "mset ls = mset ms"
  shows "foldl iadd_f32 (PyInt 0) ls = foldl iadd_f32 (PyInt 0) ms"
proof -
  consider "ls = []" | a where "ls = [a]" | a b where "ls = [a, b]"
    using assms(1)
    by (cases ls; cases "tl ls"; cases "tl (tl ls)") auto
  then show ?thesis
  proof cases
    case 1
    then show ?thesis using assms(2) by simp
  next
    case 2
    then show ?thesis using assms(2) by (metis mset_single_iff_right mset.simps(1,2))
  next
    case 3
    then have "ms = [a, b] \<or> ms = [b, a]" using assms(2) mset_two by metis
    moreover have "fadd (fadd (Fin 0) a) b = fadd (fadd (Fin 0) b) a"
      by (simp only: fadd_zero) (rule fadd_commute)
    ultimately show ?thesis
      unfolding 3 by (auto simp: iadd_f32_def)
  qed
qed

lemma discriminator_loop_elements_f32:
  "snd (foldl (\<lambda>(loss, r_losses, g_losses) (dr, dg).
        let r_loss = mean (pow2 (rsub 1 dr));
            g_loss = mean (pow2 dg)
        in (iadd_f32 loss (fadd r_loss g_loss), r_losses @ [r_loss], g_losses @ [g_loss]))
      (v, rl, gl) ps)
   = (rl @ map (\<lambda>p. mean (pow2 (rsub 1 (fst p)))) ps, gl @ map (\<lambda>p. mean (pow2 (snd p))) ps)"
  by (induction ps arbitrary: v rl gl) (auto simp: Let_def)

lemma discriminator_loss_elements_f32:
  "snd (discriminator_loss_f32 rs gs)
   = (map (\<lambda>p. mean (pow2 (rsub 1 (fst p)))) (zip rs gs), map (\<lambda>p. mean (pow2 (snd p))) (zip rs gs))"
  unfolding discriminator_loss_f32_def by (simp add: discriminator_loop_elements_f32)

lemma generator_loop_elements_f32:
  "snd (foldl (\<lambda>(loss, losses) dg.
        let temp = mean (pow2 (rsub 1 dg))
        in (iadd_f32 loss temp, losses @ [temp]))
      (v, ls) ds) = ls @ map (\<lambda>dg. mean (pow2 (rsub 1 dg))) ds"
  by (induction ds arbitrary: v ls) (auto simp: Let_def)

lemma generator_loss_elements_f32:
  "snd (generator_loss_f32 ds) = map (\<lambda>dg. mean (pow2 (rsub 1 dg))) ds"
  unfolding generator_loss_f32_def by (simp add: generator_loop_elements_f32)

lemma discriminator_loop_elements:
  "snd (foldl (\<lambda>(loss, r_losses, g_losses) (dr, dg).
        let r_loss = mean (pow2 (rsub 1 dr));
            g_loss = mean (pow2 dg)
        in (iadd loss (r_loss + g_loss), r_losses @ [r_loss], g_losses @ [g_loss]))
      (v, rl, gl) ps)
   = (rl @ map (\<lambda>p. mean (pow2 (rsub 1 (fst p)))) ps, gl @ map (\<lambda>p. mean (pow2 (snd p))) ps)"
  by (induction ps arbitrary: v rl gl) (auto simp: Let_def)

lemma generator_loop_elements:
  "snd (foldl (\<lambda>(loss, losses) dg.
        let temp = mean (pow2 (rsub 1 dg))
        in (iadd loss temp, losses @ [temp]))
      (v, ls) ds) = ls @ map (\<lambda>dg. mean (pow2 (rsub 1 dg))) ds"
  by (induction ds arbitrary: v ls) (auto simp: Let_def)

text \<open>
  The lists of single losses that the two functions return beside the total are the
  same with either addition.
\<close>

lemma f32_same_elements:
  "snd (discriminator_loss_f32 rs gs) = snd (discriminator_loss rs gs)
   \<and> snd (generator_loss_f32 ds) = snd (generator_loss ds)"
  by (simp add: discriminator_loss_elements_f32 generator_loss_elements_f32
      discriminator_loss_def generator_loss_def discriminator_loop_elements generator_loop_elements)

lemma map_map_nth:
  assumes "set js \<subseteq> {..<length xs}"
  shows "map f (map ((!) xs) js) = map ((!) (map f xs)) js"
  using assms by (induction js) auto

text \<open>
  C7, as amended. A permutation \<open>js\<close> of the positions, applied to the real and to the
  generated outputs alike, and a permutation \<open>ks\<close> of the outputs of \<open>generator_loss\<close>:
  on sequences of at most two outputs the totals of \<open>discriminator_loss\<close> and of
  \<open>generator_loss\<close>, added in float32, are unchanged; on sequences of any length the
  lists of single losses are permuted along.
\<close>

theorem loss_totals_permutation_two:
  assumes "mset js = mset [0..<length rs]" and "length gs = length rs"
    and "mset ks = mset [0..<length ds]"
  shows "(length rs \<le> 2 \<longrightarrow>
            fst (discriminator_loss_f32 (map ((!) rs) js) (map ((!) gs) js))
              = fst (discriminator_loss_f32 rs gs))
    \<and> (length ds \<le> 2 \<longrightarrow>
            fst (generator_loss_f32 (map ((!) ds) ks)) = fst (generator_loss_f32 ds))
    \<and> fst (snd (discriminator_loss_f32 (map ((!) rs) js) (map ((!) gs) js)))
          = map ((!) (fst (snd (discriminator_loss_f32 rs gs)))) js
    \<and> snd (snd (discriminator_loss_f32 (map ((!) rs) js) (map ((!) gs) js)))
          = map ((!) (snd (snd (discriminator_loss_f32 rs gs)))) js
    \<and> snd (generator_loss_f32 (map ((!) ds) ks)) = map ((!) (snd (generator_loss_f32 ds))) ks"
proof -
  have "set js = set [0..<length rs]" using assms(1) by (metis set_mset_mset)
  then have sub: "set js \<subseteq> {..<length rs}" by auto
  have "set ks = set [0..<length ds]" using assms(3) by (metis set_mset_mset)
  then have subk: "set ks \<subseteq> {..<length ds}" by auto
  have z: "zip (map ((!) rs) js) (map ((!) gs) js) = map ((!) (zip rs gs)) js"
    using zip_map_nth[of rs gs js] assms(2) sub by simp
  have subz: "set js \<subseteq> {..<length (zip rs gs)}" using sub assms(2) by simp
  have d: "fst (discriminator_loss_f32 (map ((!) rs) js) (map ((!) gs) js))
              = fst (discriminator_loss_f32 rs gs)" if two: "length rs \<le> 2"
  proof -
    have "mset js = mset [0..<length (zip rs gs)]" using assms by simp
    then have "mset (map ((!) (zip rs gs)) js) = mset (zip rs gs)" by (rule mset_map_nth)
    then have m: "mset (map pair_loss_f32 (zip rs gs)) = mset (map pair_loss_f32 (map ((!) (zip rs gs)) js))"
      by (metis mset_map)
    have l: "length (map pair_loss_f32 (zip rs gs)) \<le> 2" using assms(2) two by simp
    show ?thesis
      unfolding discriminator_loss_total_f32 z using foldl_iadd_f32_two [OF l m] by simp
  qed
  have g: "fst (generator_loss_f32 (map ((!) ds) ks)) = fst (generator_loss_f32 ds)"
    if two: "length ds \<le> 2"
  proof -
    have "mset (map ((!) ds) ks) = mset ds" using assms(3) by (rule mset_map_nth)
    then have m: "mset (map (\<lambda>dg. mean (pow2 (rsub 1 dg))) ds) = mset (map (\<lambda>dg. mean (pow2 (rsub 1 dg))) (map ((!) ds) ks))"
      by (metis mset_map)
    have l: "length (map (\<lambda>dg. mean (pow2 (rsub 1 dg))) ds) \<le> 2" using two by simp
    show ?thesis
      unfolding generator_loss_total_f32 using foldl_iadd_f32_two [OF l m] by simp
  qed
  have er: "fst (snd (discriminator_loss_f32 (map ((!) rs) js) (map ((!) gs) js)))
          = map ((!) (fst (snd (discriminator_loss_f32 rs gs)))) js"
    unfolding discriminator_loss_elements_f32 z using map_map_nth [OF subz] by simp
  have eg: "snd (snd (discriminator_loss_f32 (map ((!) rs) js) (map ((!) gs) js)))
          = map ((!) (snd (snd (discriminator_loss_f32 rs gs)))) js"
    unfolding discriminator_loss_elements_f32 z using map_map_nth [OF subz] by simp
  have el: "snd (generator_loss_f32 (map ((!) ds) ks)) = map ((!) (snd (generator_loss_f32 ds))) ks"
    unfolding generator_loss_elements_f32 using map_map_nth [OF subk] by simp
  show ?thesis
    using d g er eg el by blast
qed

theorem loss_totals_permutation_two_witness:
  "mset [1, 0] = mset [0..<length [\<lparr>shape = [1], elems = [Fin 4097]\<rparr>, \<lparr>shape = [2], elems = [Fin 0, Fin 2]\<rparr>]]
   \<and> length [\<lparr>shape = [1], elems = [Fin 3]\<rparr>, \<lparr>shape = [1], elems = [Fin 1]\<rparr>]
       = length [\<lparr>shape = [1], elems = [Fin 4097]\<rparr>, \<lparr>shape = [2], elems = [Fin 0, Fin 2]\<rparr>]
   \<and> length [\<lparr>shape = [1], elems = [Fin 4097]\<rparr>, \<lparr>shape = [2], elems = [Fin 0, Fin 2]\<rparr>] \<le> 2
   \<and> fst (discriminator_loss_f32
        [\<lparr>shape = [2], elems = [Fin 0, Fin 2]\<rparr>, \<lparr>shape = [1], elems = [Fin 4097]\<rparr>]
        [\<lparr>shape = [1], elems = [Fin 1]\<rparr>, \<lparr>shape = [1], elems = [Fin 3]\<rparr>])
     = fst (discriminator_loss_f32
        [\<lparr>shape = [1], elems = [Fin 4097]\<rparr>, \<lparr>shape = [2], elems = [Fin 0, Fin 2]\<rparr>]
        [\<lparr>shape = [1], elems = [Fin 3]\<rparr>, \<lparr>shape = [1], elems = [Fin 1]\<rparr>])
   \<and> fst (generator_loss_f32
        [\<lparr>shape = [2], elems = [Fin 0, Fin 2]\<rparr>, \<lparr>shape = [1], elems = [Fin 4097]\<rparr>])
     = fst (generator_loss_f32
        [\<lparr>shape = [1], elems = [Fin 4097]\<rparr>, \<lparr>shape = [2], elems = [Fin 0, Fin 2]\<rparr>])
   \<and> snd (generator_loss_f32
        [\<lparr>shape = [2], elems = [Fin 0, Fin 2]\<rparr>, \<lparr>shape = [1], elems = [Fin 4097]\<rparr>])
     = [Fin 1, Fin 16777216]
   \<and> snd (generator_loss_f32
        [\<lparr>shape = [1], elems = [Fin 4097]\<rparr>, \<lparr>shape = [2], elems = [Fin 0, Fin 2]\<rparr>])
     = [Fin 16777216, Fin 1]"
proof -
  have p: "mset [1, 0] = mset [0..<length [\<lparr>shape = [1], elems = [Fin 4097]\<rparr>, \<lparr>shape = [2], elems = [Fin 0, Fin 2]\<rparr>]]"
    by (simp add: upt_rec)
  have q: "length [\<lparr>shape = [1], elems = [Fin 3]\<rparr>, \<lparr>shape = [1], elems = [Fin 1]\<rparr>]
       = length [\<lparr>shape = [1], elems = [Fin 4097]\<rparr>, \<lparr>shape = [2], elems = [Fin 0, Fin 2]\<rparr>]"
    by simp
  have r: "length [\<lparr>shape = [1], elems = [Fin 4097]\<rparr>, \<lparr>shape = [2], elems = [Fin 0, Fin 2]\<rparr>] \<le> 2"
    by simp
  have v: "snd (generator_loss_f32
        [\<lparr>shape = [1], elems = [Fin 4097]\<rparr>, \<lparr>shape = [2], elems = [Fin 0, Fin 2]\<rparr>])
     = [Fin 16777216, Fin 1]"
    by (simp add: generator_loss_elements_f32 mean_def pow2_def rsub_def minus_scalar_def
        one_scalar_def)
  show ?thesis
    using p q r v loss_totals_permutation_two [OF p q p]
    by (simp add: upt_rec)
qed

text \<open>
  C7, as stated, fails on three outputs. The scores 4097, 2 and 2 have the losses
  \<open>2 ^ 24\<close>, 1 and 1. From left to right, \<open>2 ^ 24 + 1\<close> is halfway between two float32
  values and rounds back to \<open>2 ^ 24\<close>, twice, so the total is 16777216; with the
  score 4097 last, \<open>1 + 1\<close> and then \<open>2 + 2 ^ 24\<close> are exact, and the total is 16777218.
  The generated outputs of \<open>discriminator_loss\<close> are 0 here, with the loss 0.
\<close>

theorem loss_totals_permutation_counterexample:
  "mset [1, 2, 0] = mset [0..<length [\<lparr>shape = [1], elems = [Fin 4097]\<rparr>, \<lparr>shape = [1], elems = [Fin 2]\<rparr>, \<lparr>shape = [1], elems = [Fin 2]\<rparr>]]
   \<and> fst (generator_loss_f32
        [\<lparr>shape = [1], elems = [Fin 4097]\<rparr>, \<lparr>shape = [1], elems = [Fin 2]\<rparr>, \<lparr>shape = [1], elems = [Fin 2]\<rparr>])
     = Tensor (Fin 16777216)
   \<and> fst (generator_loss_f32
        (map ((!) [\<lparr>shape = [1], elems = [Fin 4097]\<rparr>, \<lparr>shape = [1], elems = [Fin 2]\<rparr>, \<lparr>shape = [1], elems = [Fin 2]\<rparr>])
           [1, 2, 0]))
     = Tensor (Fin 16777218)
   \<and> fst (discriminator_loss_f32
        [\<lparr>shape = [1], elems = [Fin 4097]\<rparr>, \<lparr>shape = [1], elems = [Fin 2]\<rparr>, \<lparr>shape = [1], elems = [Fin 2]\<rparr>]
        [\<lparr>shape = [1], elems = [Fin 0]\<rparr>, \<lparr>shape = [1], elems = [Fin 0]\<rparr>, \<lparr>shape = [1], elems = [Fin 0]\<rparr>])
     = Tensor (Fin 16777216)
   \<and> fst (discriminator_loss_f32
        (map ((!) [\<lparr>shape = [1], elems = [Fin 4097]\<rparr>, \<lparr>shape = [1], elems = [Fin 2]\<rparr>, \<lparr>shape = [1], elems = [Fin 2]\<rparr>])
           [1, 2, 0])
        (map ((!) [\<lparr>shape = [1], elems = [Fin 0]\<rparr>, \<lparr>shape = [1], elems = [Fin 0]\<rparr>, \<lparr>shape = [1], elems = [Fin 0]\<rparr>])
           [1, 2, 0]))
     = Tensor (Fin 16777218)
   \<and> fst (generator_loss_f32
        (map ((!) [\<lparr>shape = [1], elems = [Fin 4097]\<rparr>, \<lparr>shape = [1], elems = [Fin 2]\<rparr>, \<lparr>shape = [1], elems = [Fin 2]\<rparr>])
           [1, 2, 0]))
     \<noteq> fst (generator_loss_f32
        [\<lparr>shape = [1], elems = [Fin 4097]\<rparr>, \<lparr>shape = [1], elems = [Fin 2]\<rparr>, \<lparr>shape = [1], elems = [Fin 2]\<rparr>])"
  by (simp add: upt_rec generator_loss_total_f32 discriminator_loss_total_f32 pair_loss_f32_def
      iadd_f32_def fadd_def mean_def pow2_def rsub_def minus_scalar_def one_scalar_def
      round_2 round_16777217 round_16777218)

lemma zip_common_prefix:
  "zip (take (min (length xs) (length ys)) xs) (take (min (length xs) (length ys)) ys) = zip xs ys"
  by (metis length_zip take_all take_zip order_refl)

text \<open>
  C9. Sequences of different lengths raise nothing on that account: \<open>discriminator_loss\<close>
  and \<open>feature_matching_loss\<close> return what they return on the prefixes of the common
  length, so the elements of the longer sequence beyond it are ignored.
\<close>

theorem unequal_lengths_truncate:
  "discriminator_loss rs gs =
     discriminator_loss (take (min (length rs) (length gs)) rs) (take (min (length rs) (length gs)) gs)
   \<and> feature_matching_loss fr fg =
     feature_matching_loss (take (min (length fr) (length fg)) fr) (take (min (length fr) (length fg)) fg)"
  by (simp only: discriminator_loss_def feature_matching_loss_def zip_common_prefix)


lemma broadcast_rev_same: "broadcast_rev xs xs = Some xs"
  by (induction xs) auto

lemma broadcast_shapes_same: "broadcast_shapes sh sh = Some sh"
  by (simp add: broadcast_shapes_def broadcast_rev_same)

lemma finite_self_distance: "is_finite x \<Longrightarrow> \<bar>x - x\<bar> = 0"
  by (cases x) (simp_all add: minus_scalar_def zero_scalar_def)

lemma sum_list_zeros: "(\<forall>x \<in> set xs. f x = (0::scalar)) \<Longrightarrow> sum_list (map f xs) = 0"
  by (induction xs) auto

lemma l1_loss_same:
  assumes "elems t \<noteq> []" and "list_all is_finite (elems t)"
  shows "l1_loss t t = Inr 0"
proof -
  have "map2 (\<lambda>x y. \<bar>x - y\<bar>) (elems t) (elems t) = map (\<lambda>x. \<bar>x - x\<bar>) (elems t)"
    by (simp add: zip_same_conv_map)
  moreover have "sum_list (map (\<lambda>x. \<bar>x - x\<bar>) (elems t)) = 0"
    using assms(2) by (intro sum_list_zeros) (simp add: list_all_iff finite_self_distance)
  moreover have "div_count 0 (length (elems t)) = 0"
    using assms(1) by (simp add: zero_scalar_def)
  ultimately show ?thesis
    by (simp add: l1_loss_def binop_def broadcast_shapes_same broadcast_to_def mean_def)
qed

lemma feature_matching_inner_same:
  "list_all finite_nonempty ts \<Longrightarrow>
   feature_matching_inner (zip ts ts) losses = Inr (losses @ replicate (length ts) 0)"
proof (induction ts arbitrary: losses)
  case Nil
  show ?case by simp
next
  case (Cons t ts)
  then show ?case
    by (simp add: l1_loss_same finite_nonempty_def replicate_app_Cons_same)
qed

lemma feature_matching_outer_same:
  "list_all (list_all finite_nonempty) fs \<Longrightarrow>
   feature_matching_outer (zip fs fs) losses = Inr (losses @ replicate (length (concat fs)) 0)"
proof (induction fs arbitrary: losses)
  case Nil
  show ?case by simp
next
  case (Cons f fs)
  then show ?case
    by (simp add: feature_matching_inner_same replicate_add)
qed

lemma sum_list_replicate_zero: "sum_list (replicate n (0::scalar)) = 0"
  by (induction n) simp_all

lemma py_sum_zeros: "py_sum (replicate n 0) = (if n = 0 then PyInt 0 else Tensor 0)"
proof -
  have "to_scalar (PyInt 0) = 0" by (simp add: zero_scalar_def)
  then show ?thesis
    by (simp add: py_sum_def foldl_iadd sum_list_replicate_zero)
qed

text \<open>
  C8, as amended. On equal feature maps that each have an element and hold finite values
  only, \<open>feature_matching_loss\<close> returns exactly 0: the \<open>int\<close> 0 of \<open>sum\<close> when there is no
  feature map at all, the tensor 0 otherwise.
\<close>

theorem feature_matching_loss_identical:
  assumes "list_all (list_all finite_nonempty) fs"
  shows "feature_matching_loss fs fs = Inr (if concat fs = [] then PyInt 0 else Tensor 0)"
  using assms by (simp add: feature_matching_loss_def feature_matching_outer_same py_sum_zeros)

theorem feature_matching_loss_identical_witness:
  "list_all (list_all finite_nonempty)
     [[\<lparr>shape = [2], elems = [Fin 1, Fin (- 2)]\<rparr>], [\<lparr>shape = [1], elems = [Fin 3]\<rparr>, \<lparr>shape = [1, 1], elems = [Fin 0]\<rparr>]]
   \<and> feature_matching_loss
     [[\<lparr>shape = [2], elems = [Fin 1, Fin (- 2)]\<rparr>], [\<lparr>shape = [1], elems = [Fin 3]\<rparr>, \<lparr>shape = [1, 1], elems = [Fin 0]\<rparr>]]
     [[\<lparr>shape = [2], elems = [Fin 1, Fin (- 2)]\<rparr>], [\<lparr>shape = [1], elems = [Fin 3]\<rparr>, \<lparr>shape = [1, 1], elems = [Fin 0]\<rparr>]]
     = Inr (Tensor 0)"
proof -
  have h: "list_all (list_all finite_nonempty)
     [[\<lparr>shape = [2], elems = [Fin 1, Fin (- 2)]\<rparr>], [\<lparr>shape = [1], elems = [Fin 3]\<rparr>, \<lparr>shape = [1, 1], elems = [Fin 0]\<rparr>]]"
    by (simp add: finite_nonempty_def)
  show ?thesis
    using h feature_matching_loss_identical [OF h] by simp
qed

text \<open>
  C8, as stated, fails on equal feature maps with no element (the mean of no element is
  nan) and on equal feature maps holding an infinity (\<open>inf - inf\<close> is nan).
\<close>

theorem feature_matching_loss_identical_counterexample:
  "feature_matching_loss [[\<lparr>shape = [0], elems = []\<rparr>]] [[\<lparr>shape = [0], elems = []\<rparr>]] = Inr (Tensor NaN)
   \<and> feature_matching_loss [[\<lparr>shape = [1], elems = [PInf]\<rparr>]] [[\<lparr>shape = [1], elems = [PInf]\<rparr>]] = Inr (Tensor NaN)"
  by (simp add: feature_matching_loss_def l1_loss_def binop_def broadcast_shapes_def
      broadcast_to_def mean_def py_sum_def iadd_def minus_scalar_def zero_scalar_def)

section \<open>Properties of the steps\<close>


lemma bind_pure [simp]: "bind_step (pure_step x) f = f x"
  by (simp add: bind_step_def pure_step_def split: prod.splits)

lemma bind_emit [simp]: "bind_step (emit e) f = (fst (f ()), e # snd (f ()))"
  by (simp add: bind_step_def emit_def split: prod.splits)

lemma bind_lift_Inr [simp]: "bind_step (lift (Inr x)) f = f x"
  by (simp add: bind_step_def lift_def split: prod.splits)

lemma bind_lift_Inl [simp]: "bind_step (lift (Inl e)) f = (Inl e, [])"
  by (simp add: bind_step_def lift_def)

lemma bind_assert [simp]:
  "bind_step (py_assert c) f = (if c then f () else (Inl AssertionError, []))"
  by (simp add: bind_step_def py_assert_def split: prod.splits)

lemma bind_Inl [simp]: "bind_step (Inl e, evs) f = (Inl e, evs)"
  by (simp add: bind_step_def)

lemma bind_Inr [simp]: "bind_step (Inr x, evs) f = (fst (f x), evs @ snd (f x))"
  by (simp add: bind_step_def split: prod.splits)

lemma bind_lift: "bind_step (lift r) f = (case r of Inl e \<Rightarrow> (Inl e, []) | Inr x \<Rightarrow> f x)"
  by (cases r) simp_all

lemma adv_loop_run:
  "adv_loop ds fake_audio v = (Inr (foldl iadd v (adv_losses ds fake_audio)), adv_logs ds fake_audio)"
  by (induction ds arbitrary: v) (auto simp: adv_losses_def adv_logs_def pure_step_def)

lemma disc_loop_run:
  "disc_loop ds audio_c fake_audio v =
     (Inr (foldl iadd v (disc_losses ds audio_c fake_audio)), disc_logs ds audio_c fake_audio)"
  by (induction ds arbitrary: v) (auto simp: disc_losses_def disc_logs_def pure_step_def)

lemma zero_plus_scalar: "Fin 0 + (x::scalar) = x"
  using add_0_left [of x] by (simp add: zero_scalar_def)

lemma generator_phase_run:
  "generator_phase M loss_stft fake_audio =
     (if discriminators M = [] then (Inl ZeroDivisionError, [])
      else (Inr (), adv_logs (discriminators M) fake_audio
              @ [ManualBackward (loss_gen_all M loss_stft fake_audio), OptimizerStep Gen]))"
  by (simp add: generator_phase_def adv_loop_run foldl_iadd loss_gen_all_def adv_losses_def
      adv_logs_def zero_plus_scalar emit_def)

lemma discriminator_phase_run:
  "discriminator_phase M audio_c fake_audio =
     (if discriminators M = [] then (Inl ZeroDivisionError, [ZeroGrad Disc])
      else (Inr (), ZeroGrad Disc # disc_logs (discriminators M) audio_c fake_audio
              @ [ManualBackward (loss_disc_all M audio_c fake_audio), OptimizerStep Disc,
                 Log ''train/discriminator/all'' (loss_disc_all M audio_c fake_audio) True False True]))"
  by (simp add: discriminator_phase_def disc_loop_run foldl_iadd loss_disc_all_def disc_losses_def
      disc_logs_def zero_plus_scalar emit_def)

lemma training_step_unfold:
  "training_step M b seed =
     (case training_forward M b of
        (Inl e, ev1) \<Rightarrow> (Inl e, ev1)
      | (Inr (audio_m, fake_m, audio_mask), ev1) \<Rightarrow>
          (case spectral_losses M audio_m fake_m of
             (Inl e, ev2) \<Rightarrow> (Inl e, ev1 @ ev2)
           | (Inr loss_stft, ev2) \<Rightarrow>
               (case crop M seed audio_m fake_m audio_mask of
                  (Inl e, ev3) \<Rightarrow> (Inl e, ev1 @ ev2 @ ev3)
                | (Inr (audio_c, fake_c, mask_c), ev3) \<Rightarrow>
                    if discriminators M = [] then (Inl ZeroDivisionError, ev1 @ ev2 @ ev3)
                    else (Inr (), ev1 @ ev2 @ ev3 @ completed_trace M loss_stft audio_c fake_c))))"
  by (simp add: training_step_def generator_phase_run discriminator_phase_run completed_trace_def
      emit_def split: prod.splits sum.splits)

lemma training_forward_events:
  "snd (training_forward M b) = [] \<or> snd (training_forward M b) = [ZeroGrad Gen]"
  by (simp add: training_forward_def bind_lift pure_step_def split: sum.splits)

lemma crop_events: "snd (crop M seed audio_m fake_m audio_mask) = []"
  by (simp add: crop_def bind_lift pure_step_def split: option.splits sum.splits)

lemma spectral_losses_events: "list_all is_passive (snd (spectral_losses M audio_m fake_m))"
  by (simp add: spectral_losses_def mel_loss_def no_grad_def bind_lift pure_step_def is_passive_def
      split: sum.splits prod.splits)

lemma updates_logs: "list_all is_passive evs \<Longrightarrow> updates evs = []"
  by (induction evs) (auto simp: updates_def is_passive_def split: event.splits)

lemma backward_logs: "list_all is_passive evs \<Longrightarrow> backward_losses evs = []"
  by (induction evs) (auto simp: is_passive_def split: event.splits)

lemma adv_logs_are_logs: "list_all is_passive (adv_logs ds f)"
  by (induction ds) (auto simp: adv_logs_def is_passive_def)

lemma disc_logs_are_logs: "list_all is_passive (disc_logs ds a f)"
  by (induction ds) (auto simp: disc_logs_def is_passive_def)

lemma updates_append: "updates (xs @ ys) = updates xs @ updates ys"
  by (simp add: updates_def)

lemma backward_losses_append: "backward_losses (xs @ ys) = backward_losses xs @ backward_losses ys"
  by (induction xs rule: backward_losses.induct) simp_all

lemma updates_simps [simp]:
  "updates [] = []"
  "updates (e # evs) = (if is_update e then e # updates evs else updates evs)"
  by (simp_all add: updates_def)

lemma updates_forward: "updates (snd (training_forward M b)) = []"
  using training_forward_events [of M b] by auto

lemma backward_forward: "backward_losses (snd (training_forward M b)) = []"
  using training_forward_events [of M b] by auto

lemma updates_completed:
  "updates (completed_trace M ls a f) = [OptimizerStep Gen, OptimizerStep Disc, SchedulerStep Gen, SchedulerStep Disc]"
  by (simp add: completed_trace_def updates_append updates_logs adv_logs_are_logs disc_logs_are_logs)

lemma backward_completed:
  "backward_losses (completed_trace M ls a f) = [loss_gen_all M ls f, loss_disc_all M a f]"
  by (simp add: completed_trace_def backward_losses_append backward_logs adv_logs_are_logs disc_logs_are_logs)

text \<open>
  C2. The optimizer and scheduler steps of a call of \<open>training_step\<close>, in the order they
  happen: none when the call raises, and otherwise the generator's optimizer, the
  discriminators' optimizer, then each scheduler once, with no condition on them. A call
  that has stepped an optimizer therefore runs to its end.
\<close>

theorem update_order:
  "updates (snd (training_step M b seed)) =
     (case fst (training_step M b seed) of
        Inl e \<Rightarrow> []
      | Inr u \<Rightarrow> [OptimizerStep Gen, OptimizerStep Disc, SchedulerStep Gen, SchedulerStep Disc])"
proof -
  have f: "updates (snd (training_forward M b)) = []" by (rule updates_forward)
  have s: "\<And>a g. updates (snd (spectral_losses M a g)) = []"
    by (rule updates_logs) (rule spectral_losses_events)
  have c: "\<And>a g m. snd (crop M seed a g m) = []" by (rule crop_events)
  show ?thesis
    unfolding training_step_unfold
    using f s c
    by (auto simp: updates_append updates_completed split: prod.splits sum.splits)
       (metis snd_conv updates_def filter.simps(1))+
qed



lemma mel_loss_run:
  "mel_loss M audio_m fake_m =
     (case squeeze1 audio_m of
        Inl e \<Rightarrow> (Inl e, [])
      | Inr audio_s \<Rightarrow>
          (case squeeze1 fake_m of
             Inl e \<Rightarrow> (Inl e, [])
           | Inr fake_s \<Rightarrow>
               (case l1_loss (mel_transforms_loss M audio_s) (mel_transforms_loss M fake_s) of
                  Inl e \<Rightarrow> (Inl e, [])
                | Inr loss_mel \<Rightarrow>
                    (Inr loss_mel, [Log ''train/generator/mel'' (Tensor loss_mel) True False True]))))"
  by (simp add: mel_loss_def bind_lift pure_step_def split: sum.splits)

lemma spectral_losses_run:
  "spectral_losses M audio_m fake_m =
     (case squeeze1 fake_m of
        Inl e \<Rightarrow> (Inl e, [])
      | Inr fake_s \<Rightarrow>
          (case squeeze1 audio_m of
             Inl e \<Rightarrow> (Inl e, [])
           | Inr audio_s \<Rightarrow>
               (case l1_loss (mel_transforms_loss M audio_s) (mel_transforms_loss M fake_s) of
                  Inl e \<Rightarrow> (Inl e,
                    [Log ''train/generator/stft''
                       (Tensor (fst (multi_resolution_stft_loss M fake_s audio_s)
                                + snd (multi_resolution_stft_loss M fake_s audio_s))) True False True,
                     NoGradEnter, NoGradExit])
                | Inr loss_mel \<Rightarrow>
                    (Inr (fst (multi_resolution_stft_loss M fake_s audio_s)
                          + snd (multi_resolution_stft_loss M fake_s audio_s)),
                     [Log ''train/generator/stft''
                        (Tensor (fst (multi_resolution_stft_loss M fake_s audio_s)
                                 + snd (multi_resolution_stft_loss M fake_s audio_s))) True False True,
                      NoGradEnter,
                      Log ''train/generator/mel'' (Tensor loss_mel) True False True,
                      NoGradExit]))))"
  by (simp add: spectral_losses_def mel_loss_run no_grad_def bind_lift pure_step_def
      split: sum.splits prod.splits)

text \<open>
  C1. When the step reaches line 137 with a discriminator in the ensemble, it completes,
  and the first loss given to \<open>manual_backward\<close> is \<open>loss_stft * 2.5\<close> plus the mean over
  the discriminators of \<open>mean((1 - score_fake) ** 2)\<close> on the masked and possibly cropped
  fake audio: the sum divided by the number of discriminators. \<open>loss_stft\<close> is the sum of
  the two results of the STFT loss.
\<close>

theorem generator_loss_formula:
  assumes "training_forward M b = (Inr (audio_m, fake_m, audio_mask), ev1)"
    and "spectral_losses M audio_m fake_m = (Inr loss_stft, ev2)"
    and "crop M seed audio_m fake_m audio_mask = (Inr (audio_c, fake_c, mask_c), ev3)"
    and "discriminators M \<noteq> []"
  shows "fst (training_step M b seed) = Inr ()
    \<and> backward_losses (snd (training_step M b seed)) =
        [Tensor (loss_stft * Fin (5 / 2)
           + div_count
               (sum_list (map (\<lambda>(key, disc). mean (pow2 (rsub 1 (fst (disc fake_c)))))
                            (discriminators M)))
               (length (discriminators M))),
         loss_disc_all M audio_c fake_c]
    \<and> (\<exists>fake_s audio_s. squeeze1 fake_m = Inr fake_s \<and> squeeze1 audio_m = Inr audio_s
          \<and> loss_stft = fst (multi_resolution_stft_loss M fake_s audio_s)
                        + snd (multi_resolution_stft_loss M fake_s audio_s))"
proof -
  have e1: "backward_losses ev1 = []"
    using backward_forward [of M b] assms(1) by simp
  have e2: "backward_losses ev2 = []"
    using backward_logs [OF spectral_losses_events [of M audio_m fake_m]] assms(2) by simp
  have e3: "ev3 = []"
    using crop_events [of M seed audio_m fake_m audio_mask] assms(3) by simp
  have run: "training_step M b seed =
      (Inr (), ev1 @ ev2 @ ev3 @ completed_trace M loss_stft audio_c fake_c)"
    using assms by (simp add: training_step_unfold)
  have stft: "\<exists>fake_s audio_s. squeeze1 fake_m = Inr fake_s \<and> squeeze1 audio_m = Inr audio_s
          \<and> loss_stft = fst (multi_resolution_stft_loss M fake_s audio_s)
                        + snd (multi_resolution_stft_loss M fake_s audio_s)"
    using assms(2) unfolding spectral_losses_run by (auto split: sum.splits)
  show ?thesis
    using stft
    by (simp add: run backward_losses_append e1 e2 e3 backward_completed loss_gen_all_def adv_losses_def)
qed

text \<open>
  C6. \<open>validation_step\<close> emits no event that touches an optimizer or a scheduler: no
  \<open>zero_grad\<close>, no backward pass, no optimizer step and no scheduler step, for every model
  and batch, whether it returns or raises.
\<close>

theorem validation_leaves_optimizers:
  "filter touches_optimizer (snd (validation_step M b)) = []
   \<and> updates (snd (validation_step M b)) = []
   \<and> backward_losses (snd (validation_step M b)) = []"
  by (simp add: validation_step_def bind_lift emit_def split: sum.splits)

text \<open>
  C10. Once the step has reached line 137: with an empty ensemble it raises
  \<open>ZeroDivisionError\<close> at the first division, before any backward pass or update; with a
  discriminator in the ensemble both divisions are defined, the step completes, and the
  two losses given to \<open>manual_backward\<close> are the two sums over the number of
  discriminators.
\<close>

theorem empty_ensemble_division:
  assumes "training_forward M b = (Inr (audio_m, fake_m, audio_mask), ev1)"
    and "spectral_losses M audio_m fake_m = (Inr loss_stft, ev2)"
    and "crop M seed audio_m fake_m audio_mask = (Inr (audio_c, fake_c, mask_c), ev3)"
  shows "(discriminators M = [] \<longrightarrow>
            training_step M b seed = (Inl ZeroDivisionError, ev1 @ ev2 @ ev3)
            \<and> backward_losses (ev1 @ ev2 @ ev3) = [] \<and> updates (ev1 @ ev2 @ ev3) = [])
    \<and> (discriminators M \<noteq> [] \<longrightarrow>
            fst (training_step M b seed) = Inr ()
            \<and> backward_losses (snd (training_step M b seed)) =
                [Tensor (loss_stft * Fin (5 / 2)
                   + div_count (sum_list (adv_losses (discriminators M) fake_c))
                       (length (discriminators M))),
                 Tensor (div_count (sum_list (disc_losses (discriminators M) audio_c fake_c))
                   (length (discriminators M)))])"
proof -
  have e1: "backward_losses ev1 = []" "updates ev1 = []"
    using backward_forward [of M b] updates_forward [of M b] assms(1) by simp_all
  have e2: "backward_losses ev2 = []" "updates ev2 = []"
    using backward_logs [OF spectral_losses_events [of M audio_m fake_m]]
      updates_logs [OF spectral_losses_events [of M audio_m fake_m]] assms(2) by simp_all
  have e3: "ev3 = []"
    using crop_events [of M seed audio_m fake_m audio_mask] assms(3) by simp
  show ?thesis
    using assms
    by (simp add: training_step_unfold backward_losses_append updates_append e1 e2 e3
        backward_completed loss_gen_all_def loss_disc_all_def)
qed



lemma slice_last_rank3:
  "shape t = [B, C, T] \<Longrightarrow>
   slice_last t a b =
     Inr \<lparr>shape = [B, C, slice_bound b T - slice_bound a T],
          elems = concat (map (\<lambda>row. take (slice_bound b T - slice_bound a T) (drop (slice_bound a T) row))
                            (chunks T (prod_list [C, B]) (elems t)))\<rparr>"
  by (simp add: slice_last_def Let_def)

lemma shape_at_rank3:
  "shape t = [B, C, T] \<Longrightarrow> shape_at t 2 = Inr T \<and> shape_at t (- 1) = Inr T"
  by (simp add: shape_at_def)

lemma block_count:
  assumes "s < m"
  shows "length (filter (\<lambda>x. x mod m = s) [k * m..<k * m + m]) = 1"
proof -
  have "[k * m..<k * m + m] = map (\<lambda>i. i + k * m) [0..<m]"
    by (simp add: map_add_upt add.commute)
  then have "filter (\<lambda>x. x mod m = s) [k * m..<k * m + m]
      = map (\<lambda>i. i + k * m) (filter (\<lambda>i. i mod m = s) [0..<m])"
    by (simp add: filter_map comp_def)
  also have "filter (\<lambda>i. i mod m = s) [0..<m] = filter (\<lambda>i. i = s) [0..<m]"
    by (rule filter_cong) auto
  also have "\<dots> = [s]"
    using assms by (induction m) auto
  finally show ?thesis by simp
qed

lemma mod_count:
  assumes "s < m"
  shows "length (filter (\<lambda>x. x mod m = s) [0..<n * m]) = n"
proof (induction n)
  case 0
  show ?case by simp
next
  case (Suc n)
  have "Suc n * m = n * m + m" by simp
  moreover have "[0..<n * m + m] = [0..<n * m] @ [n * m..<n * m + m]"
    by (rule upt_add_eq_append) simp
  ultimately have "[0..<Suc n * m] = [0..<n * m] @ [n * m..<n * m + m]"
    by (simp only:)
  then show ?case
    using Suc block_count [OF assms, of n] by (simp only: filter_append length_append)
qed

lemma randint_count:
  assumes "0 < h" and "0 \<le> s" and "s < h"
  shows "length (filter (\<lambda>state. randint 0 h state = Inr s) [0..<n * nat h]) = n"
proof -
  have "\<And>state. (randint 0 h state = Inr s) = (state mod nat h = nat s)"
  proof -
    fix state
    have "0 \<le> int state mod h" using assms by simp
    then have "(int state mod h = s) = (nat (int state mod h) = nat s)"
      using assms by (simp add: nat_eq_iff)
    then show "(randint 0 h state = Inr s) = (state mod nat h = nat s)"
      using assms by (simp add: randint_def nat_mod_as_int)
  qed
  then show ?thesis
    using mod_count [of "nat s" "nat h" n] assms by simp
qed

lemma window_length:
  assumes "0 \<le> start" and "start + c \<le> int T" and "0 \<le> c"
  shows "slice_bound (start + c) T - slice_bound start T = nat c"
  using assms by (simp add: slice_bound_def min_def) linarith

text \<open>
  C3. For masked signals of rank 3 with \<open>T\<close> samples and a configured \<open>crop_length\<close> below
  \<open>T\<close>: the start index is the one \<open>randint\<close> draws from \<open>[0, T - crop_length)\<close>, the
  window lies inside the signal, the three tensors are cut to the same window, and the
  three slices have the same shape whenever the mask has the shape of the audio; when it
  has not, line 135 raises \<open>AssertionError\<close>. The draw is uniform over the states of the
  generator: every index of the range is drawn for some state, and among the first
  \<open>n * (T - crop_length)\<close> states exactly \<open>n\<close> draw any given index of the range, for
  every \<open>n\<close>.
\<close>

theorem crop_window:
  assumes "shape audio_m = [B, C, T]" and "shape fake_m = [B, C, T]"
    and "shape audio_mask = [B', C', T']"
    and "crop_length M = Some c" and "c < int T"
  shows "\<exists>start audio_c fake_c mask_c.
      randint 0 (int T - c) seed = Inr start
    \<and> 0 \<le> start \<and> start < int T - c \<and> start + c \<le> int T
    \<and> slice_last audio_m start (start + c) = Inr audio_c
    \<and> slice_last fake_m start (start + c) = Inr fake_c
    \<and> slice_last audio_mask start (start + c) = Inr mask_c
    \<and> shape audio_c = shape fake_c
    \<and> crop M seed audio_m fake_m audio_mask =
        (if shape fake_c = shape mask_c then Inr (audio_c, fake_c, mask_c) else Inl AssertionError, [])
    \<and> ([B', C', T'] = [B, C, T] \<longrightarrow> shape fake_c = shape mask_c)
    \<and> (0 \<le> c \<longrightarrow> shape audio_c = [B, C, nat c])
    \<and> (\<forall>s. 0 \<le> s \<and> s < int T - c \<longrightarrow> (\<exists>seed'. randint 0 (int T - c) seed' = Inr s))
    \<and> (\<forall>n s. 0 \<le> s \<and> s < int T - c \<longrightarrow>
          length (filter (\<lambda>state. randint 0 (int T - c) state = Inr s)
                    [0..<n * nat (int T - c)]) = n)"
proof -
  define start where "start = int seed mod (int T - c)"
  have pos: "0 < int T - c" using assms(5) by simp
  have r: "randint 0 (int T - c) seed = Inr start"
    using pos by (simp add: randint_def start_def)
  have lo: "0 \<le> start" and hi: "start < int T - c"
    using pos by (simp_all add: start_def)
  have fit: "start + c \<le> int T" using hi by simp
  obtain audio_c where a: "slice_last audio_m start (start + c) = Inr audio_c"
    and sa: "shape audio_c = [B, C, slice_bound (start + c) T - slice_bound start T]"
    using slice_last_rank3 [OF assms(1), of start "start + c"] by simp
  obtain fake_c where f: "slice_last fake_m start (start + c) = Inr fake_c"
    and sf: "shape fake_c = [B, C, slice_bound (start + c) T - slice_bound start T]"
    using slice_last_rank3 [OF assms(2), of start "start + c"] by simp
  obtain mask_c where m: "slice_last audio_mask start (start + c) = Inr mask_c"
    and sm: "shape mask_c = [B', C', slice_bound (start + c) T' - slice_bound start T']"
    using slice_last_rank3 [OF assms(3), of start "start + c"] by simp
  have run: "crop M seed audio_m fake_m audio_mask =
        (if shape fake_c = shape mask_c then Inr (audio_c, fake_c, mask_c) else Inl AssertionError, [])"
    using assms(4,5) shape_at_rank3 [OF assms(1)] r a f m sa sf
    by (simp add: crop_def pure_step_def)
  have same: "[B', C', T'] = [B, C, T] \<longrightarrow> shape fake_c = shape mask_c"
    using sf sm by simp
  have len: "0 \<le> c \<longrightarrow> shape audio_c = [B, C, nat c]"
    using sa window_length [OF lo fit] by simp
  have onto: "\<forall>s. 0 \<le> s \<and> s < int T - c \<longrightarrow> (\<exists>seed'. randint 0 (int T - c) seed' = Inr s)"
  proof (intro allI impI)
    fix s assume s: "0 \<le> s \<and> s < int T - c"
    then have "randint 0 (int T - c) (nat s) = Inr s"
      using pos by (simp add: randint_def)
    then show "\<exists>seed'. randint 0 (int T - c) seed' = Inr s" ..
  qed
  have equi: "\<forall>n s. 0 \<le> s \<and> s < int T - c \<longrightarrow>
          length (filter (\<lambda>state. randint 0 (int T - c) state = Inr s)
                    [0..<n * nat (int T - c)]) = n"
    using randint_count [OF pos] by simp
  have eq: "shape audio_c = shape fake_c" using sa sf by simp
  show ?thesis
    using r lo hi fit a f m eq run same len onto equi
    by (intro exI conjI) assumption+
qed

text \<open>
  C5. A generator output whose shape differs from the audio's makes the step raise
  \<open>AssertionError\<close> at line 88, with \<open>zero_grad\<close> as its only event; cropped tensors of
  different shapes make it raise \<open>AssertionError\<close> at line 135, after the two logs. In
  both cases no backward pass and no optimizer or scheduler step has happened.
\<close>

theorem assertion_precedes_updates:
  "(insert_axis1 (sequence_mask M (lengths b)) = Inr audio_mask
      \<and> squeeze1 (audio b) = Inr squeezed
      \<and> shape (generator M (mel_transforms_input M squeezed)) \<noteq> shape (audio b)
    \<longrightarrow> training_step M b seed = (Inl AssertionError, [ZeroGrad Gen]))
   \<and> (training_forward M b = (Inr (audio_m, fake_m, mask_m), evs_a)
      \<and> spectral_losses M audio_m fake_m = (Inr loss_stft, evs_b)
      \<and> crop_length M = Some c \<and> shape_at audio_m 2 = Inr t \<and> c < int t
      \<and> shape_at audio_m (- 1) = Inr width \<and> randint 0 (int width - c) seed = Inr idx
      \<and> slice_last audio_m idx (idx + c) = Inr audio_c
      \<and> slice_last fake_m idx (idx + c) = Inr fake_c
      \<and> slice_last mask_m idx (idx + c) = Inr mask_c
      \<and> \<not> (shape audio_c = shape fake_c \<and> shape fake_c = shape mask_c)
    \<longrightarrow> training_step M b seed = (Inl AssertionError, evs_a @ evs_b)
        \<and> updates (evs_a @ evs_b) = [] \<and> backward_losses (evs_a @ evs_b) = [])"
proof -
  have first: "training_step M b seed = (Inl AssertionError, [ZeroGrad Gen])"
    if h: "insert_axis1 (sequence_mask M (lengths b)) = Inr audio_mask
      \<and> squeeze1 (audio b) = Inr squeezed
      \<and> shape (generator M (mel_transforms_input M squeezed)) \<noteq> shape (audio b)"
  proof -
    have "training_forward M b = (Inl AssertionError, [ZeroGrad Gen])"
      using h by (simp add: training_forward_def)
    then show ?thesis
      by (simp add: training_step_unfold)
  qed
  have second: "training_step M b seed = (Inl AssertionError, evs_a @ evs_b)
        \<and> updates (evs_a @ evs_b) = [] \<and> backward_losses (evs_a @ evs_b) = []"
    if h: "training_forward M b = (Inr (audio_m, fake_m, mask_m), evs_a)
      \<and> spectral_losses M audio_m fake_m = (Inr loss_stft, evs_b)
      \<and> crop_length M = Some c \<and> shape_at audio_m 2 = Inr t \<and> c < int t
      \<and> shape_at audio_m (- 1) = Inr width \<and> randint 0 (int width - c) seed = Inr idx
      \<and> slice_last audio_m idx (idx + c) = Inr audio_c
      \<and> slice_last fake_m idx (idx + c) = Inr fake_c
      \<and> slice_last mask_m idx (idx + c) = Inr mask_c
      \<and> \<not> (shape audio_c = shape fake_c \<and> shape fake_c = shape mask_c)"
  proof -
  have c: "crop M seed audio_m fake_m mask_m = (Inl AssertionError, [])"
    using h by (cases "shape audio_c = shape fake_c") (simp_all add: crop_def)
  have e1: "backward_losses evs_a = []" "updates evs_a = []"
    using backward_forward [of M b] updates_forward [of M b] h by simp_all
  have e2: "backward_losses evs_b = []" "updates evs_b = []"
    using backward_logs [OF spectral_losses_events [of M audio_m fake_m]]
      updates_logs [OF spectral_losses_events [of M audio_m fake_m]] h by simp_all
  show ?thesis
    using h c by (simp add: training_step_unfold updates_append backward_losses_append e1 e2)
  qed
  show ?thesis
    using first second by blast
qed



lemma mel_filter_append: "filter P (xs @ ys) = filter P xs @ filter P ys"
  by simp












section \<open>The steps on the small model\<close>

lemma example_forward:
  "training_forward (example_model\<lparr>crop_length := c, discriminators := ds, mel_transforms_loss := g\<rparr>) example_batch =
     (Inr (example_audio_m, example_fake_m, example_mask), [ZeroGrad Gen])"
  by (simp add: training_forward_def example_model_def example_batch_def insert_axis1_def
      squeeze1_def binop_def broadcast_shapes_def broadcast_to_def example_audio_m_def
      example_fake_m_def example_mask_def pure_step_def)

lemma example_spectral:
  "spectral_losses (example_model\<lparr>crop_length := c, discriminators := ds\<rparr>) example_audio_m example_fake_m =
     (Inr (Fin (29 / 8)),
      [Log ''train/generator/stft'' (Tensor (Fin (29 / 8))) True False True,
       NoGradEnter,
       Log ''train/generator/mel'' (Tensor (Fin (7 / 8))) True False True,
       NoGradExit])"
  by (simp add: spectral_losses_run example_model_def squeeze1_def example_audio_m_def
      example_fake_m_def l1_loss_def binop_def broadcast_shapes_def broadcast_to_def mean_def
      minus_scalar_def zero_scalar_def)

lemma example_slices:
  "slice_last example_audio_m 1 3 = Inr example_audio_c"
  "slice_last example_fake_m 1 3 = Inr example_fake_c"
  "slice_last example_mask 1 3 = Inr example_mask_c"
  by (simp_all add: slice_last_def slice_bound_def example_audio_m_def example_fake_m_def
      example_mask_def example_audio_c_def example_fake_c_def example_mask_c_def numeral_2_eq_2)

lemma example_crop:
  "crop (example_model\<lparr>discriminators := ds\<rparr>) 7 example_audio_m example_fake_m example_mask =
     (Inr (example_audio_c, example_fake_c, example_mask_c), [])"
proof -
  have "shape_at example_audio_m 2 = Inr 4" "shape_at example_audio_m (- 1) = Inr 4"
    by (simp_all add: shape_at_def example_audio_m_def)
  moreover have "randint 0 (int 4 - 2) 7 = Inr 1"
    by (simp add: randint_def)
  moreover have "shape example_audio_c = shape example_fake_c \<and> shape example_fake_c = shape example_mask_c"
    by (simp add: example_audio_c_def example_fake_c_def example_mask_c_def)
  ultimately show ?thesis
    using example_slices
    by (simp add: crop_def example_model_def pure_step_def)
qed

theorem generator_loss_formula_witness:
  "training_forward example_model example_batch =
     (Inr (example_audio_m, example_fake_m, example_mask), [ZeroGrad Gen])
   \<and> spectral_losses example_model example_audio_m example_fake_m =
     (Inr (Fin (29 / 8)),
      [Log ''train/generator/stft'' (Tensor (Fin (29 / 8))) True False True,
       NoGradEnter,
       Log ''train/generator/mel'' (Tensor (Fin (7 / 8))) True False True,
       NoGradExit])
   \<and> crop example_model 7 example_audio_m example_fake_m example_mask =
     (Inr (example_audio_c, example_fake_c, example_mask_c), [])
   \<and> discriminators example_model \<noteq> []
   \<and> fst (training_step example_model example_batch 7) = Inr ()
   \<and> hd (backward_losses (snd (training_step example_model example_batch 7))) = Tensor (Fin (769 / 16))"
proof -
  have h1: "training_forward example_model example_batch =
      (Inr (example_audio_m, example_fake_m, example_mask), [ZeroGrad Gen])"
    using example_forward [where c = "crop_length example_model"
        and ds = "discriminators example_model" and g = "mel_transforms_loss example_model"]
    by simp
  have h2: "spectral_losses example_model example_audio_m example_fake_m =
      (Inr (Fin (29 / 8)),
       [Log ''train/generator/stft'' (Tensor (Fin (29 / 8))) True False True,
        NoGradEnter,
        Log ''train/generator/mel'' (Tensor (Fin (7 / 8))) True False True,
        NoGradExit])"
    using example_spectral [where c = "crop_length example_model"
        and ds = "discriminators example_model"]
    by simp
  have h3: "crop example_model 7 example_audio_m example_fake_m example_mask =
      (Inr (example_audio_c, example_fake_c, example_mask_c), [])"
    using example_crop [where ds = "discriminators example_model"] by simp
  have h4: "discriminators example_model \<noteq> []"
    by (simp add: example_model_def)
  have "fst (training_step example_model example_batch 7) = Inr ()
      \<and> hd (backward_losses (snd (training_step example_model example_batch 7))) = Tensor (Fin (769 / 16))"
    using generator_loss_formula [OF h1 h2 h3 h4]
    by (simp add: example_model_def example_fake_c_def mean_def pow2_def rsub_def
        minus_scalar_def one_scalar_def zero_scalar_def)
  then show ?thesis
    using h1 h2 h3 h4 by simp
qed

lemma example_step_completes:
  "fst (training_step example_model example_batch 7) = Inr ()"
proof -
  have "training_forward example_model example_batch =
      (Inr (example_audio_m, example_fake_m, example_mask), [ZeroGrad Gen])"
    using example_forward [where c = "crop_length example_model"
        and ds = "discriminators example_model" and g = "mel_transforms_loss example_model"]
    by simp
  moreover have "spectral_losses example_model example_audio_m example_fake_m =
      (Inr (Fin (29 / 8)),
       [Log ''train/generator/stft'' (Tensor (Fin (29 / 8))) True False True,
        NoGradEnter,
        Log ''train/generator/mel'' (Tensor (Fin (7 / 8))) True False True,
        NoGradExit])"
    using example_spectral [where c = "crop_length example_model"
        and ds = "discriminators example_model"]
    by simp
  moreover have "crop example_model 7 example_audio_m example_fake_m example_mask =
      (Inr (example_audio_c, example_fake_c, example_mask_c), [])"
    using example_crop [where ds = "discriminators example_model"] by simp
  moreover have "discriminators example_model \<noteq> []"
    by (simp add: example_model_def)
  ultimately show ?thesis
    by (simp add: training_step_unfold)
qed

theorem update_order_witness:
  "fst (training_step example_model example_batch 7) = Inr ()
   \<and> updates (snd (training_step example_model example_batch 7)) =
       [OptimizerStep Gen, OptimizerStep Disc, SchedulerStep Gen, SchedulerStep Disc]"
  using update_order [of example_model example_batch 7] example_step_completes
  by simp

theorem crop_window_witness:
  "shape example_audio_m = [2, 1, 4] \<and> shape example_fake_m = [2, 1, 4]
   \<and> shape example_mask = [2, 1, 4] \<and> crop_length example_model = Some 2 \<and> (2::int) < int 4
   \<and> (\<exists>start audio_c fake_c mask_c.
         randint 0 (int 4 - 2) 7 = Inr start \<and> 0 \<le> start \<and> start + 2 \<le> int 4
       \<and> slice_last example_audio_m start (start + 2) = Inr audio_c
       \<and> slice_last example_fake_m start (start + 2) = Inr fake_c
       \<and> slice_last example_mask start (start + 2) = Inr mask_c
       \<and> crop example_model 7 example_audio_m example_fake_m example_mask =
           (Inr (audio_c, fake_c, mask_c), [])
       \<and> shape audio_c = [2, 1, 2] \<and> shape fake_c = [2, 1, 2] \<and> shape mask_c = [2, 1, 2])
   \<and> length (filter (\<lambda>state. randint 0 (int 4 - 2) state = Inr 0) [0..<5 * nat (int 4 - 2)]) = 5
   \<and> length (filter (\<lambda>state. randint 0 (int 4 - 2) state = Inr 1) [0..<5 * nat (int 4 - 2)]) = 5"
proof -
  have h1: "shape example_audio_m = [2, 1, 4]" by (simp add: example_audio_m_def)
  have h2: "shape example_fake_m = [2, 1, 4]" by (simp add: example_fake_m_def)
  have h3: "shape example_mask = [2, 1, 4]" by (simp add: example_mask_def)
  have h4: "crop_length example_model = Some 2" by (simp add: example_model_def)
  have h5: "(2::int) < int 4" by simp
  obtain start audio_c fake_c mask_c where
    r: "randint 0 (int 4 - 2) 7 = Inr start" "0 \<le> start" "start + 2 \<le> int 4"
    and sl: "slice_last example_audio_m start (start + 2) = Inr audio_c"
      "slice_last example_fake_m start (start + 2) = Inr fake_c"
      "slice_last example_mask start (start + 2) = Inr mask_c"
    and eq: "shape audio_c = shape fake_c"
    and run: "crop example_model 7 example_audio_m example_fake_m example_mask =
        (if shape fake_c = shape mask_c then Inr (audio_c, fake_c, mask_c) else Inl AssertionError, [])"
    and same: "[2, 1, 4] = [2, 1, 4::nat] \<longrightarrow> shape fake_c = shape mask_c"
    and len: "(0::int) \<le> 2 \<longrightarrow> shape audio_c = [2, 1, nat 2]"
    and equi: "\<forall>n s. 0 \<le> s \<and> s < int 4 - 2 \<longrightarrow>
          length (filter (\<lambda>state. randint 0 (int 4 - 2) state = Inr s)
                    [0..<n * nat (int 4 - 2)]) = n"
    using crop_window [OF h1 h2 h3 h4 h5, of 7] by blast
  have count: "length (filter (\<lambda>state. randint 0 (int 4 - 2) state = Inr 0) [0..<5 * nat (int 4 - 2)]) = 5"
    "length (filter (\<lambda>state. randint 0 (int 4 - 2) state = Inr 1) [0..<5 * nat (int 4 - 2)]) = 5"
    using equi [rule_format, of 0 5] equi [rule_format, of 1 5] by simp_all
  have "shape audio_c = [2, 1, 2]" using len by simp
  moreover have "shape fake_c = [2, 1, 2]" "shape mask_c = [2, 1, 2]"
    using calculation eq same by simp_all
  moreover have "crop example_model 7 example_audio_m example_fake_m example_mask =
           (Inr (audio_c, fake_c, mask_c), [])"
    using run calculation by simp
  ultimately have "randint 0 (int 4 - 2) 7 = Inr start \<and> 0 \<le> start \<and> start + 2 \<le> int 4
       \<and> slice_last example_audio_m start (start + 2) = Inr audio_c
       \<and> slice_last example_fake_m start (start + 2) = Inr fake_c
       \<and> slice_last example_mask start (start + 2) = Inr mask_c
       \<and> crop example_model 7 example_audio_m example_fake_m example_mask =
           (Inr (audio_c, fake_c, mask_c), [])
       \<and> shape audio_c = [2, 1, 2] \<and> shape fake_c = [2, 1, 2] \<and> shape mask_c = [2, 1, 2]"
    using r sl by simp
  then have "\<exists>start audio_c fake_c mask_c.
         randint 0 (int 4 - 2) 7 = Inr start \<and> 0 \<le> start \<and> start + 2 \<le> int 4
       \<and> slice_last example_audio_m start (start + 2) = Inr audio_c
       \<and> slice_last example_fake_m start (start + 2) = Inr fake_c
       \<and> slice_last example_mask start (start + 2) = Inr mask_c
       \<and> crop example_model 7 example_audio_m example_fake_m example_mask =
           (Inr (audio_c, fake_c, mask_c), [])
       \<and> shape audio_c = [2, 1, 2] \<and> shape fake_c = [2, 1, 2] \<and> shape mask_c = [2, 1, 2]"
    by blast
  then show ?thesis
    using h1 h2 h3 h4 h5 count by blast
qed

theorem empty_ensemble_division_witness:
  "training_forward (example_model\<lparr>discriminators := []\<rparr>) example_batch =
     (Inr (example_audio_m, example_fake_m, example_mask), [ZeroGrad Gen])
   \<and> spectral_losses (example_model\<lparr>discriminators := []\<rparr>) example_audio_m example_fake_m =
     (Inr (Fin (29 / 8)),
      [Log ''train/generator/stft'' (Tensor (Fin (29 / 8))) True False True,
       NoGradEnter,
       Log ''train/generator/mel'' (Tensor (Fin (7 / 8))) True False True,
       NoGradExit])
   \<and> crop (example_model\<lparr>discriminators := []\<rparr>) 7 example_audio_m example_fake_m example_mask =
     (Inr (example_audio_c, example_fake_c, example_mask_c), [])
   \<and> discriminators (example_model\<lparr>discriminators := []\<rparr>) = []
   \<and> training_step (example_model\<lparr>discriminators := []\<rparr>) example_batch 7 =
     (Inl ZeroDivisionError,
      [ZeroGrad Gen,
       Log ''train/generator/stft'' (Tensor (Fin (29 / 8))) True False True,
       NoGradEnter,
       Log ''train/generator/mel'' (Tensor (Fin (7 / 8))) True False True,
       NoGradExit])
   \<and> discriminators example_model \<noteq> []
   \<and> fst (training_step example_model example_batch 7) = Inr ()
   \<and> backward_losses (snd (training_step example_model example_batch 7)) =
       [Tensor (Fin (769 / 16)), Tensor (Fin 58)]"
proof -
  have e1: "training_forward (example_model\<lparr>discriminators := []\<rparr>) example_batch =
      (Inr (example_audio_m, example_fake_m, example_mask), [ZeroGrad Gen])"
    using example_forward [where c = "crop_length example_model"
        and ds = "[]" and g = "mel_transforms_loss example_model"]
    by simp
  have e2: "spectral_losses (example_model\<lparr>discriminators := []\<rparr>) example_audio_m example_fake_m =
      (Inr (Fin (29 / 8)),
       [Log ''train/generator/stft'' (Tensor (Fin (29 / 8))) True False True,
        NoGradEnter,
        Log ''train/generator/mel'' (Tensor (Fin (7 / 8))) True False True,
        NoGradExit])"
    using example_spectral [where c = "crop_length example_model" and ds = "[]"]
    by simp
  have e3: "crop (example_model\<lparr>discriminators := []\<rparr>) 7 example_audio_m example_fake_m example_mask =
      (Inr (example_audio_c, example_fake_c, example_mask_c), [])"
    by (rule example_crop)
  have h1: "training_forward example_model example_batch =
      (Inr (example_audio_m, example_fake_m, example_mask), [ZeroGrad Gen])"
    using example_forward [where c = "crop_length example_model"
        and ds = "discriminators example_model" and g = "mel_transforms_loss example_model"]
    by simp
  have h2: "spectral_losses example_model example_audio_m example_fake_m =
      (Inr (Fin (29 / 8)),
       [Log ''train/generator/stft'' (Tensor (Fin (29 / 8))) True False True,
        NoGradEnter,
        Log ''train/generator/mel'' (Tensor (Fin (7 / 8))) True False True,
        NoGradExit])"
    using example_spectral [where c = "crop_length example_model"
        and ds = "discriminators example_model"]
    by simp
  have h3: "crop example_model 7 example_audio_m example_fake_m example_mask =
      (Inr (example_audio_c, example_fake_c, example_mask_c), [])"
    using example_crop [where ds = "discriminators example_model"] by simp
  have d: "discriminators example_model \<noteq> []"
    by (simp add: example_model_def)
  have empty: "training_step (example_model\<lparr>discriminators := []\<rparr>) example_batch 7 =
     (Inl ZeroDivisionError,
      [ZeroGrad Gen,
       Log ''train/generator/stft'' (Tensor (Fin (29 / 8))) True False True,
       NoGradEnter,
       Log ''train/generator/mel'' (Tensor (Fin (7 / 8))) True False True,
       NoGradExit])"
    using empty_ensemble_division [OF e1 e2 e3] by simp
  have full: "fst (training_step example_model example_batch 7) = Inr ()
     \<and> backward_losses (snd (training_step example_model example_batch 7)) =
       [Tensor (Fin (769 / 16)), Tensor (Fin 58)]"
    using empty_ensemble_division [OF h1 h2 h3] d
    by (simp add: example_model_def example_fake_c_def example_audio_c_def adv_losses_def
        disc_losses_def mean_def pow2_def rsub_def subc_def minus_scalar_def one_scalar_def
        zero_scalar_def)
  show ?thesis
    using e1 e2 e3 empty d full by simp
qed




lemma stereo_forward:
  "training_forward (example_model\<lparr>generator := (\<lambda>mel. mel)\<rparr>) stereo_batch =
     (Inr (stereo_audio, stereo_audio, stereo_mask), [ZeroGrad Gen])"
  by (simp add: training_forward_def example_model_def stereo_batch_def insert_axis1_def
      squeeze1_def binop_def broadcast_shapes_def broadcast_to_def stereo_audio_def
      stereo_mask_def pure_step_def numeral_2_eq_2 numeral_eq_Suc)

lemma stereo_spectral:
  "spectral_losses (example_model\<lparr>generator := (\<lambda>mel. mel)\<rparr>) stereo_audio stereo_audio =
     (Inr (Fin 4),
      [Log ''train/generator/stft'' (Tensor (Fin 4)) True False True,
       NoGradEnter,
       Log ''train/generator/mel'' (Tensor (Fin 0)) True False True,
       NoGradExit])"
  by (simp add: spectral_losses_run example_model_def squeeze1_def stereo_audio_def
      l1_loss_def binop_def broadcast_shapes_def broadcast_to_def mean_def
      minus_scalar_def zero_scalar_def)

theorem assertion_precedes_updates_witness:
  "insert_axis1 (sequence_mask (example_model\<lparr>generator := (\<lambda>mel. mel)\<rparr>) (lengths example_batch)) =
     Inr example_mask
   \<and> squeeze1 (audio example_batch) =
     Inr \<lparr>shape = [2, 4], elems = [Fin 1, Fin 2, Fin 3, Fin 4, Fin 0, Fin 1, Fin 0, Fin 5]\<rparr>
   \<and> shape (generator (example_model\<lparr>generator := (\<lambda>mel. mel)\<rparr>)
        (mel_transforms_input (example_model\<lparr>generator := (\<lambda>mel. mel)\<rparr>)
           \<lparr>shape = [2, 4], elems = [Fin 1, Fin 2, Fin 3, Fin 4, Fin 0, Fin 1, Fin 0, Fin 5]\<rparr>))
     \<noteq> shape (audio example_batch)
   \<and> training_step (example_model\<lparr>generator := (\<lambda>mel. mel)\<rparr>) example_batch 7 =
     (Inl AssertionError, [ZeroGrad Gen])
   \<and> training_forward (example_model\<lparr>generator := (\<lambda>mel. mel)\<rparr>) stereo_batch =
     (Inr (stereo_audio, stereo_audio, stereo_mask), [ZeroGrad Gen])
   \<and> slice_last stereo_audio 1 (1 + 2) = Inr \<lparr>shape = [1, 2, 2], elems = [Fin 2, Fin 3, Fin 1, Fin 0]\<rparr>
   \<and> slice_last stereo_mask 1 (1 + 2) = Inr \<lparr>shape = [1, 1, 2], elems = [Fin 1, Fin 1]\<rparr>
   \<and> training_step (example_model\<lparr>generator := (\<lambda>mel. mel)\<rparr>) stereo_batch 7 =
     (Inl AssertionError,
      [ZeroGrad Gen] @
      [Log ''train/generator/stft'' (Tensor (Fin 4)) True False True,
       NoGradEnter,
       Log ''train/generator/mel'' (Tensor (Fin 0)) True False True,
       NoGradExit])"
proof -
  let ?M = "example_model\<lparr>generator := (\<lambda>mel. mel)\<rparr>"
  let ?sq = "\<lparr>shape = [2, 4], elems = [Fin 1, Fin 2, Fin 3, Fin 4, Fin 0, Fin 1, Fin 0, Fin 5]\<rparr>"
  let ?ac = "\<lparr>shape = [1, 2, 2], elems = [Fin 2, Fin 3, Fin 1, Fin 0]\<rparr>"
  let ?mc = "\<lparr>shape = [1, 1, 2], elems = [Fin 1, Fin 1]\<rparr>"
  have a1: "insert_axis1 (sequence_mask ?M (lengths example_batch)) = Inr example_mask"
    by (simp add: example_model_def example_batch_def insert_axis1_def example_mask_def)
  have a2: "squeeze1 (audio example_batch) = Inr ?sq"
    by (simp add: example_batch_def squeeze1_def)
  have a3: "shape (generator ?M (mel_transforms_input ?M ?sq)) \<noteq> shape (audio example_batch)"
    by (simp add: example_model_def example_batch_def)
  have b1: "training_forward ?M stereo_batch = (Inr (stereo_audio, stereo_audio, stereo_mask), [ZeroGrad Gen])"
    by (rule stereo_forward)
  have b2: "spectral_losses ?M stereo_audio stereo_audio =
     (Inr (Fin 4),
      [Log ''train/generator/stft'' (Tensor (Fin 4)) True False True,
       NoGradEnter,
       Log ''train/generator/mel'' (Tensor (Fin 0)) True False True,
       NoGradExit])"
    by (rule stereo_spectral)
  have b3: "crop_length ?M = Some 2" by (simp add: example_model_def)
  have b4: "shape_at stereo_audio 2 = Inr 4" "shape_at stereo_audio (- 1) = Inr 4"
    by (simp_all add: shape_at_def stereo_audio_def)
  have b5: "(2::int) < int 4" by simp
  have b6: "randint 0 (int 4 - 2) 7 = Inr 1" by (simp add: randint_def)
  have b7: "slice_last stereo_audio 1 (1 + 2) = Inr ?ac"
    by (simp add: slice_last_def slice_bound_def stereo_audio_def numeral_2_eq_2)
  have b8: "slice_last stereo_mask 1 (1 + 2) = Inr ?mc"
    by (simp add: slice_last_def slice_bound_def stereo_mask_def)
  have b9: "\<not> (shape ?ac = shape ?ac \<and> shape ?ac = shape ?mc)" by simp
  have first: "training_step ?M example_batch 7 = (Inl AssertionError, [ZeroGrad Gen])"
    using assertion_precedes_updates [where M = ?M and b = example_batch and seed = 7
        and audio_mask = example_mask and squeezed = ?sq] a1 a2 a3
    by blast
  have second: "training_step ?M stereo_batch 7 =
     (Inl AssertionError,
      [ZeroGrad Gen] @
      [Log ''train/generator/stft'' (Tensor (Fin 4)) True False True,
       NoGradEnter,
       Log ''train/generator/mel'' (Tensor (Fin 0)) True False True,
       NoGradExit])"
    using assertion_precedes_updates [where M = ?M and b = stereo_batch and seed = 7
        and audio_m = stereo_audio and fake_m = stereo_audio and mask_m = stereo_mask
        and evs_a = "[ZeroGrad Gen]" and loss_stft = "Fin 4"
        and evs_b = "[Log ''train/generator/stft'' (Tensor (Fin 4)) True False True,
                    NoGradEnter,
                    Log ''train/generator/mel'' (Tensor (Fin 0)) True False True,
                    NoGradExit]"
        and c = 2 and t = 4 and width = 4 and idx = 1
        and audio_c = ?ac and fake_c = ?ac and mask_c = ?mc]
      b1 b2 b3 b4 b5 b6 b7 b8 b9
    by blast
  show ?thesis
    using a1 a2 a3 first b1 b7 b8 second by blast
qed

end
